theory Spec2Isabelle
  imports Complex_Main "HOL-Library.Sublist" "HOL-Library.Log_Nat"
begin

section \<open>California Climate Farmer: the simulation core of game.js\<close>

text \<open>
  The class \<open>CaliforniaClimateFarmer\<close> of \<open>src/game.js\<close> is embedded as functions on a
  record of its fields. Methods that mutate \<open>this\<close> take the record and return the new one.

  Conventions of the embedding:
  \<^item> A JavaScript number is the rational it stands for (\<open>rat\<close>); values the code rounds,
    and the counters it only increments, are \<open>int\<close>. \<open>Math.round x\<close> is \<open>\<lfloor>x + 1/2\<rfloor>\<close>.
    The sums, differences, products and quotients of the climate drift, the
    sustainability score, the subsidy, the market prices and the water recovery are
    rounded to the nearest double after each operation (\<open>fadd\<close>, \<open>fsub\<close>, \<open>fmul\<close>, \<open>fdiv\<close>),
    and a decimal literal such as 0.005 is the double nearest to it. The inflated costs
    and the inflated overhead keep exact rationals: they go through \<open>Math.pow\<close>, whose
    precision JavaScript leaves to the implementation. The balance is added to and
    subtracted from exactly. A division by zero that JavaScript answers with \<open>Infinity\<close>
    or \<open>NaN\<close> is written out.
  \<^item> The collaborators imported by game.js (cell.js, crops.js, technology.js, events.js,
    utils.js) are not part of the embedded file. They are the fields of a record \<open>ext\<close>
    handed to every method. A collaborator that may draw random numbers or keep state
    of its own takes and returns the outside world \<open>'w\<close>; \<open>Math.random\<close> is one of them.
    Values game.js never inspects have the type \<open>'x\<close>.
  \<^item> The calls to the user interface and to the logger are recorded, in order, in the
    field \<open>calls\<close>.
  \<^item> A template literal is the list of its pieces.
  \<^item> \<open>initializeGrid\<close> builds a \<open>gridSize \<times> gridSize\<close> grid and no method resizes it, so
    the loops \<open>for row < gridSize, for col < gridSize\<close> visit the cells of \<open>grid\<close> in
    row-major order. Only the player actions receive a row and a column from outside;
    there a missing row or cell raises \<open>TypeError\<close> as in JavaScript.
  \<^item> The constructor, \<open>start\<close>, \<open>gameLoop\<close>, \<open>togglePause\<close>, \<open>updateMarketPrices\<close> and
    \<open>setupTestMode\<close> build the first state or talk to the browser's clock and document;
    they are not embedded. \<open>gameLoop\<close> calls \<open>update\<close> only while \<open>paused\<close> is false.
\<close>

subsection \<open>Numbers\<close>

definition Math_round :: "rat \<Rightarrow> int" where
  "Math_round x = \<lfloor>x + 1 / 2\<rfloor>"

definition Math_floor :: "rat \<Rightarrow> int" where
  "Math_floor x = \<lfloor>x\<rfloor>"

text \<open>\<open>Math.pow\<close> for an integer exponent. The code raises \<open>1 + annualInflationRate\<close> to
  \<open>year - 1\<close>, and \<open>year\<close> starts at 1 and only grows; a zero base with a negative exponent
  (\<open>Infinity\<close> in JavaScript, 0 here) does not arise from such a state.\<close>

definition Math_pow :: "rat \<Rightarrow> int \<Rightarrow> rat" where
  "Math_pow b e = (if 0 \<le> e then b ^ nat e else 1 / b ^ nat (- e))"

subsection \<open>Doubles\<close>

text \<open>
  Rounding to binary64: a number \<open>x\<close> with \<open>2 ^ e \<le> |x| < 2 ^ (e + 1)\<close> is rounded to the
  nearest multiple of \<open>2 ^ (e - 52)\<close>, a tie to the multiple with an even factor; below
  \<open>2 ^ - 1022\<close> the multiples are those of \<open>2 ^ - 1074\<close>. A result beyond the largest double
  (\<open>Infinity\<close> in JavaScript) is not modelled: the quantities rounded here are
  probabilities, scores, prices and percentages.
\<close>

text \<open>\<open>\<lfloor>log\<^sub>2 x\<rfloor>\<close> for a positive \<open>x\<close>, from the bit lengths of its numerator and denominator.\<close>

definition ilog2 :: "rat \<Rightarrow> int" where
  "ilog2 x =
     (let d = bitlen (fst (quotient_of x)) - bitlen (snd (quotient_of x))
      in if 2 powi d \<le> x then d else d - 1)"

text \<open>The nearest integer, a tie to the even one.\<close>

definition rne :: "rat \<Rightarrow> int" where
  "rne z =
     (let f = \<lfloor>z\<rfloor>; r = z - of_int f
      in if r < 1 / 2 then f else if 1 / 2 < r then f + 1 else if even f then f else f + 1)"

definition fl :: "rat \<Rightarrow> rat" where
  "fl x =
     (if x = 0 then 0
      else (let e = max (ilog2 \<bar>x\<bar>) (- 1022);
                q = 2 powi (e - 52)
            in sgn x * of_int (rne (\<bar>x\<bar> / q)) * q))"

definition fadd :: "rat \<Rightarrow> rat \<Rightarrow> rat" where
  "fadd a b = fl (a + b)"

definition fsub :: "rat \<Rightarrow> rat \<Rightarrow> rat" where
  "fsub a b = fl (a - b)"

definition fmul :: "rat \<Rightarrow> rat \<Rightarrow> rat" where
  "fmul a b = fl (a * b)"

text \<open>The quotient by a divisor other than 0; the code's divisions by 0 are written out
  where they occur.\<close>

definition fdiv :: "rat \<Rightarrow> rat \<Rightarrow> rat" where
  "fdiv a b = fl (a / b)"

text \<open>A score that may be \<open>Infinity\<close> or \<open>NaN\<close> (the diversity score and the total built from
  it). Every comparison with \<open>NaN\<close> is false.\<close>

datatype jsnum = Fin int | Infinity | NaN

fun jsnum_ge :: "jsnum \<Rightarrow> int \<Rightarrow> bool" where
  "jsnum_ge (Fin a) b = (b \<le> a)"
| "jsnum_ge Infinity b = True"
| "jsnum_ge NaN b = False"

subsection \<open>Data model\<close>

datatype season = Spring | Summer | Fall | Winter

datatype part = S string | N rat | NInfinity | NNaN

type_synonym message = "part list"

fun season_name :: "season \<Rightarrow> string" where
  "season_name Spring = ''Spring''"
| "season_name Summer = ''Summer''"
| "season_name Fall = ''Fall''"
| "season_name Winter = ''Winter''"

record crop =
  crop_id :: string
  crop_name :: string
  basePrice :: rat

record 'x cell =
  crop :: crop
  soilHealth :: rat
  irrigated :: bool
  fertilized :: bool
  harvestReady :: bool
  consecutivePlantings :: rat
  expectedYield :: rat
  cell_internal :: 'x

type_synonym 'x farm_grid = "'x cell list list"

record technology =
  tech_id :: string
  tech_name :: string
  cost :: rat
  prerequisites :: "string list"
  effects_soilHealth :: "rat option"
  researched :: bool

record 'x pending_event =
  ev_type :: string
  ev_day :: int
  duration :: "'x option"
  severity :: "'x option"
  ev_message :: message
  ev_isAlert :: bool
  ev_payload :: "'x option"

record log_entry =
  date :: message
  message :: message
  isAlert :: bool

record climate =
  avgTemp :: rat
  rainfall :: rat
  droughtProbability :: rat
  floodProbability :: rat
  heatwaveProbability :: rat

datatype call =
    UiRender
  | UiUpdateHUD
  | UiUpdateEventsList
  | UiShowCellInfo nat nat
  | UiShowResearchModal
  | LoggerLog message "nat option"
  | SetTimeout

record ('x, 'w) game =
  gridSize :: int
  day :: int
  year :: int
  season :: season
  seasonDay :: int
  balance :: rat
  farmValue :: rat
  farmHealth :: rat
  waterReserve :: rat
  paused :: bool
  overheadCostPerCell :: int
  annualInflationRate :: rat
  grid :: "'x farm_grid"
  technologies :: "technology list"
  researchedTechs :: "string list"
  events :: "log_entry list"
  pendingEvents :: "'x pending_event list"
  marketPrices :: "string \<rightharpoonup> rat"
  climate :: climate
  testMode :: bool
  autoTerminate :: bool
  testEndYear :: int
  nextTestCallback :: bool
  calls :: "call list"
  world :: 'w

subsection \<open>Results of the collaborators\<close>

record harvest_result =
  hr_value :: rat
  hr_cropName :: string
  hr_yieldPercentage :: rat

record rain_result =
  rr_waterReserve :: rat
  rr_message :: message

record 'x weather_result =
  skipped :: bool
  wr_waterReserve :: rat
  wr_message :: message
  continueEvent :: bool
  nextDuration :: "'x option"
  wr_severity :: "'x option"

record market_result =
  mr_marketPrices :: "string \<rightharpoonup> rat"
  mr_message :: message

record policy_result =
  pr_newBalance :: rat
  pr_message :: message
  balanceChange :: rat

record tech_result =
  tr_newBalance :: rat
  tr_message :: message

record farm_state =
  fs_climate :: climate
  fs_day :: int
  fs_season :: season
  fs_waterReserve :: rat
  fs_farmHealth :: rat
  fs_balance :: rat
  fs_researchedTechs :: "string list"

text \<open>
  The imported collaborators. The event handlers receive the grid by reference and may
  change its cells, so they return the grid; \<open>applyTechnologyEvent\<close> receives the list of
  researched technologies by reference and returns it.
\<close>

record ('x, 'w) ext =
  Math_random :: "'w \<Rightarrow> rat \<times> 'w"
  crops :: "crop list"
  getCropById :: "string \<Rightarrow> crop option"
  checkTechPrerequisites :: "technology \<Rightarrow> string list \<Rightarrow> bool"
  getTechEffectValue :: "string \<Rightarrow> string list \<Rightarrow> rat \<Rightarrow> rat"
  calculateFarmHealth :: "'x farm_grid \<Rightarrow> rat \<Rightarrow> 'w \<Rightarrow> rat \<times> 'w"
  calculateFarmValue :: "'x farm_grid \<Rightarrow> technology list \<Rightarrow> 'w \<Rightarrow> rat \<times> 'w"
  cell_update :: "'x cell \<Rightarrow> rat \<Rightarrow> string list \<Rightarrow> 'w \<Rightarrow> (string \<times> 'x cell) \<times> 'w"
  cell_plant :: "'x cell \<Rightarrow> crop \<Rightarrow> 'w \<Rightarrow> 'x cell \<times> 'w"
  cell_irrigate :: "'x cell \<Rightarrow> rat \<Rightarrow> 'w \<Rightarrow> 'x cell \<times> 'w"
  cell_fertilize :: "'x cell \<Rightarrow> rat \<Rightarrow> 'w \<Rightarrow> 'x cell \<times> 'w"
  cell_harvest :: "'x cell \<Rightarrow> rat \<Rightarrow> rat \<Rightarrow> 'w \<Rightarrow> (harvest_result \<times> 'x cell) \<times> 'w"
  generateRandomEvent :: "farm_state \<Rightarrow> 'w \<Rightarrow> 'x pending_event option \<times> 'w"
  scheduleDrought :: "int \<Rightarrow> rat \<Rightarrow> 'w \<Rightarrow> 'x pending_event \<times> 'w"
  scheduleHeatwave :: "int \<Rightarrow> 'w \<Rightarrow> 'x pending_event \<times> 'w"
  scheduleFrost :: "int \<Rightarrow> 'w \<Rightarrow> 'x pending_event \<times> 'w"
  scheduleRain :: "int \<Rightarrow> 'w \<Rightarrow> 'x pending_event \<times> 'w"
  generatePolicyEvent :: "int \<Rightarrow> rat \<Rightarrow> 'w \<Rightarrow> 'x pending_event \<times> 'w"
  applyRainEvent :: "'x pending_event \<Rightarrow> 'x farm_grid \<Rightarrow> rat \<Rightarrow> string list \<Rightarrow> 'w
    \<Rightarrow> (rain_result \<times> 'x farm_grid) \<times> 'w"
  applyDroughtEvent :: "'x pending_event \<Rightarrow> 'x farm_grid \<Rightarrow> rat \<Rightarrow> string list \<Rightarrow> 'w
    \<Rightarrow> ('x weather_result \<times> 'x farm_grid) \<times> 'w"
  applyHeatwaveEvent :: "'x pending_event \<Rightarrow> 'x farm_grid \<Rightarrow> rat \<Rightarrow> string list \<Rightarrow> 'w
    \<Rightarrow> ('x weather_result \<times> 'x farm_grid) \<times> 'w"
  applyFrostEvent :: "'x pending_event \<Rightarrow> 'x farm_grid \<Rightarrow> string list \<Rightarrow> 'w
    \<Rightarrow> (message \<times> 'x farm_grid) \<times> 'w"
  applyMarketEvent :: "'x pending_event \<Rightarrow> (string \<rightharpoonup> rat) \<Rightarrow> crop list \<Rightarrow> 'w
    \<Rightarrow> market_result \<times> 'w"
  applyPolicyEvent :: "'x pending_event \<Rightarrow> rat \<Rightarrow> 'w \<Rightarrow> policy_result \<times> 'w"
  applyTechnologyEvent :: "'x pending_event \<Rightarrow> rat \<Rightarrow> string list \<Rightarrow> 'w
    \<Rightarrow> (tech_result \<times> string list) \<times> 'w"

subsection \<open>The event log and the technology set\<close>

text \<open>\<open>addEvent\<close>: the new entry goes to the front; beyond 20 entries the last one is dropped.\<close>

definition addEvent :: "('x, 'w) game \<Rightarrow> message \<Rightarrow> bool \<Rightarrow> ('x, 'w) game" where
  "addEvent s msg alert =
     (let event = \<lparr>date = [S (season_name (season s)), S '', Year '', N (of_int (year s))],
                   message = msg, isAlert = alert\<rparr>;
          evs = event # events s;
          evs' = (if length evs > 20 then butlast evs else evs)
      in s\<lparr>events := evs',
           calls := calls s @ [UiUpdateEventsList, LoggerLog msg (Some (if alert then 0 else 1))]\<rparr>)"

definition hasTechnology :: "('x, 'w) game \<Rightarrow> string \<Rightarrow> bool" where
  "hasTechnology s techId = (techId \<in> set (researchedTechs s))"

subsection \<open>Sustainability score\<close>

record score_acc =
  totalSoilHealth :: rat
  cellCount :: int
  cropCounts :: "(string \<times> int) list"
  totalCrops :: int
  monocropPenalty :: rat

text \<open>
  \<open>cropCounts[id] = (cropCounts[id] || 0) + 1\<close> on an object literal, which keeps its own
  keys in insertion order. The object inherits the properties of \<open>Object.prototype\<close>:
  \<^item> for an id that names one of its functions the first read gives the function, the sum
    is a string, and the assignment makes it an own property: the key is counted, its
    value is not a number;
  \<^item> for \<open>__proto__\<close> the assignment of a string is ignored: no key is made;
  \<^item> any other id is counted from 1.
\<close>

definition inherited_function_keys :: "string list" where
  "inherited_function_keys =
     [''constructor'', ''hasOwnProperty'', ''isPrototypeOf'', ''propertyIsEnumerable'',
      ''toLocaleString'', ''toString'', ''valueOf'', ''__defineGetter__'',
      ''__defineSetter__'', ''__lookupGetter__'', ''__lookupSetter__'']"

fun count_crop :: "string \<Rightarrow> (string \<times> int) list \<Rightarrow> (string \<times> int) list" where
  "count_crop k [] = [(k, 1)]"
| "count_crop k ((k', n) # kvs) =
     (if k = k' then (k', n + 1) # kvs else (k', n) # count_crop k kvs)"

definition score_cell :: "score_acc \<Rightarrow> 'x cell \<Rightarrow> score_acc" where
  "score_cell a c =
     (let a1 = a\<lparr>totalSoilHealth := fadd (totalSoilHealth a) (soilHealth c),
                 cellCount := cellCount a + 1\<rparr>
      in if crop_id (crop c) \<noteq> ''empty''
         then a1\<lparr>cropCounts :=
                   (if crop_id (crop c) = ''__proto__'' then cropCounts a1
                    else count_crop (crop_id (crop c)) (cropCounts a1)),
                 totalCrops := totalCrops a1 + 1,
                 monocropPenalty :=
                   (if consecutivePlantings c > 0
                    then fadd (monocropPenalty a1) (fmul (consecutivePlantings c) 2)
                    else monocropPenalty a1)\<rparr>
         else a1)"

definition sustainableTechs :: "string list" where
  "sustainableTechs =
     [''drip_irrigation'', ''soil_sensors'', ''no_till_farming'',
      ''precision_drones'', ''renewable_energy'', ''greenhouse'',
      ''drought_resistant'', ''ai_irrigation'', ''silvopasture'']"

text \<open>The body of the loop \<open>for (const tech of sustainableTechs)\<close> with its \<open>switch\<close>.\<close>

definition score_tech :: "('x, 'w) game \<Rightarrow> int \<Rightarrow> string \<Rightarrow> int" where
  "score_tech s rawTechScore tech =
     (if hasTechnology s tech
      then (if tech = ''no_till_farming'' \<or> tech = ''silvopasture'' then rawTechScore + 20
            else if tech = ''drip_irrigation'' \<or> tech = ''renewable_energy''
                    \<or> tech = ''precision_drones'' then rawTechScore + 15
            else rawTechScore + 10)
      else rawTechScore)"

record sustainability_score =
  total :: jsnum
  soilScore :: int
  diversityScore :: jsnum
  techScore :: int

text \<open>
  The whole method. When crops have been counted:
  \<^item> a key whose value is a string makes \<open>Math.max(...Object.values(cropCounts))\<close>, and with
    it the diversity score, \<open>NaN\<close>;
  \<^item> with no key at all (every planted cell has the id \<open>__proto__\<close>) \<open>Math.max()\<close> is
    \<open>-Infinity\<close> and the score \<open>Infinity\<close>, or \<open>NaN\<close> when \<open>maxPossibleCrops\<close> is 0 (\<open>0 / 0\<close>);
  \<^item> with \<open>maxPossibleCrops = 0\<close> (a crops table of one entry) the division gives
    \<open>Infinity\<close>;
  \<^item> otherwise the counts are positive and the fold from 0 is their maximum.
\<close>

definition calculateSustainabilityScore ::
  "('x, 'w) ext \<Rightarrow> ('x, 'w) game \<Rightarrow> sustainability_score" where
  "calculateSustainabilityScore ext s =
     (let a = foldl score_cell
                \<lparr>totalSoilHealth = 0, cellCount = 0, cropCounts = [], totalCrops = 0,
                 monocropPenalty = 0\<rparr> (concat (grid s));
          avgSoilHealth =
            (if cellCount a > 0 then fdiv (totalSoilHealth a) (of_int (cellCount a)) else 0);
          soil = Math_round avgSoilHealth;
          uniqueCrops = int (length (cropCounts a));
          cropDiversityScore =
            (if totalCrops a > 0
             then (let maxPossibleCrops = min (totalCrops a) (int (length (crops ext)) - 1)
                   in if list_ex (\<lambda>kv. fst kv \<in> set inherited_function_keys) (cropCounts a)
                      then NaN
                      else if cropCounts a = []
                      then (if maxPossibleCrops = 0 then NaN else Infinity)
                      else if maxPossibleCrops = 0 then Infinity
                      else (let rawDiversityScore =
                                  fmul (fdiv (of_int uniqueCrops) (of_int maxPossibleCrops)) 100;
                                maxSingleCropCount = foldl max 0 (map snd (cropCounts a));
                                dominantCropPercentage =
                                  fdiv (of_int maxSingleCropCount) (of_int (totalCrops a));
                                distributionPenalty = fmul dominantCropPercentage 50
                            in Fin (Math_round (max 0
                                 (fsub (fsub rawDiversityScore distributionPenalty)
                                    (fdiv (monocropPenalty a) (of_int (totalCrops a))))))))
             else Fin 0);
          maxTechScore = int (length sustainableTechs) * 100;
          rawTechScore = foldl (score_tech s) 0 sustainableTechs;
          tech = Math_round (fmul (fdiv (of_int rawTechScore) (of_int maxTechScore)) 100);
          totalScore =
            (case cropDiversityScore of
               NaN \<Rightarrow> NaN
             | Infinity \<Rightarrow> Infinity
             | Fin d \<Rightarrow>
                 Fin (Math_round
                        (fadd (fadd (fmul (of_int soil) (fl (4 / 10)))
                                    (fmul (of_int d) (fl (4 / 10))))
                              (fmul (of_int tech) (fl (2 / 10))))))
      in \<lparr>total = totalScore, soilScore = soil, diversityScore = cropDiversityScore,
          techScore = tech\<rparr>)"

subsection \<open>Calls to the outside\<close>

definition emit :: "('x, 'w) game \<Rightarrow> call \<Rightarrow> ('x, 'w) game" where
  "emit s c = s\<lparr>calls := calls s @ [c]\<rparr>"

definition random :: "('x, 'w) ext \<Rightarrow> ('x, 'w) game \<Rightarrow> rat \<times> ('x, 'w) game" where
  "random ext s = (let (r, w) = Math_random ext (world s) in (r, s\<lparr>world := w\<rparr>))"

subsection \<open>Daily overhead and the farm update\<close>

definition payDailyOverhead :: "('x, 'w) game \<Rightarrow> ('x, 'w) game" where
  "payDailyOverhead s =
     (let totalCells = gridSize s * gridSize s;
          overhead = totalCells * overheadCostPerCell s
      in if balance s \<ge> of_int overhead
         then emit (s\<lparr>balance := balance s - of_int overhead\<rparr>)
                (LoggerLog [S ''Paid daily overhead: $'', N (of_int overhead)] (Some 2))
         else addEvent (s\<lparr>balance := balance s - of_int overhead\<rparr>)
                [S ''You went into debt paying overhead: -$'', N (of_int overhead)] True)"

text \<open>The inner loop of \<open>updateFarm\<close> over the columns of one row, from column \<open>col\<close> on.\<close>

fun update_cells ::
  "('x, 'w) ext \<Rightarrow> rat \<Rightarrow> string list \<Rightarrow> nat \<Rightarrow> nat \<Rightarrow> 'x cell list \<Rightarrow> 'w
    \<Rightarrow> ('x cell list \<times> (nat \<times> nat) list) \<times> 'w" where
  "update_cells ext wr techs row col [] w = (([], []), w)"
| "update_cells ext wr techs row col (c # cs) w =
     (let ((result, c'), w1) = cell_update ext c wr techs w;
          ((cs', ready), w2) = update_cells ext wr techs row (Suc col) cs w1
      in ((c' # cs', (if result = ''harvest-ready'' then [(row, col)] else []) @ ready), w2))"

text \<open>The outer loop over the rows, from row \<open>row\<close> on.\<close>

fun update_rows ::
  "('x, 'w) ext \<Rightarrow> rat \<Rightarrow> string list \<Rightarrow> nat \<Rightarrow> 'x farm_grid \<Rightarrow> 'w
    \<Rightarrow> ('x farm_grid \<times> (nat \<times> nat) list) \<times> 'w" where
  "update_rows ext wr techs row [] w = (([], []), w)"
| "update_rows ext wr techs row (r # rs) w =
     (let ((r', ready1), w1) = update_cells ext wr techs row 0 r w;
          ((rs', ready2), w2) = update_rows ext wr techs (Suc row) rs w1
      in ((r' # rs', ready1 @ ready2), w2))"

definition announce_ready :: "('x, 'w) game \<Rightarrow> nat \<times> nat \<Rightarrow> ('x, 'w) game" where
  "announce_ready s rc =
     (case rc of (row, col) \<Rightarrow>
        addEvent s [S (crop_name (crop (grid s ! row ! col))), S '' at row '',
                    N (of_nat row + 1), S '', column '', N (of_nat col + 1),
                    S '' is ready for harvest!''] False)"

definition updateFarm :: "('x, 'w) ext \<Rightarrow> ('x, 'w) game \<Rightarrow> ('x, 'w) game" where
  "updateFarm ext s =
     (let ((g, harvestReadyCells), w) =
            update_rows ext (waterReserve s) (researchedTechs s) 0 (grid s) (world s);
          s1 = s\<lparr>grid := g, world := w\<rparr>;
          s2 = foldl announce_ready s1 harvestReadyCells
      in emit s2 UiRender)"

subsection \<open>Season change\<close>

text \<open>
  \<open>fluctuateMarketPrices\<close>, one crop of \<open>crops.forEach\<close>. A crop without a price would get
  \<open>NaN\<close>, which \<open>harvestCell\<close> reads like a missing price (\<open>NaN || 1.0\<close>); it stays missing here.
\<close>

definition fluctuate_crop :: "('x, 'w) ext \<Rightarrow> ('x, 'w) game \<Rightarrow> crop \<Rightarrow> ('x, 'w) game" where
  "fluctuate_crop ext s c =
     (if crop_id c \<noteq> ''empty''
      then (let (r, s1) = random ext s;
                change = fadd (fl (9 / 10)) (fmul r (fl (2 / 10)))
            in case marketPrices s1 (crop_id c) of
                 None \<Rightarrow> s1
               | Some p \<Rightarrow>
                   s1\<lparr>marketPrices :=
                        (marketPrices s1)(crop_id c \<mapsto> max (1 / 2) (min 2 (fmul p change)))\<rparr>)
      else s)"

definition fluctuateMarketPrices :: "('x, 'w) ext \<Rightarrow> ('x, 'w) game \<Rightarrow> ('x, 'w) game" where
  "fluctuateMarketPrices ext s = foldl (fluctuate_crop ext) s (crops ext)"

text \<open>\<open>if (Math.random() < p) this.pendingEvents.push(Events.scheduleX(...))\<close>.\<close>

definition seed_event ::
  "('x, 'w) ext \<Rightarrow> ('x, 'w) game \<Rightarrow> rat
    \<Rightarrow> (('x, 'w) game \<Rightarrow> 'w \<Rightarrow> 'x pending_event \<times> 'w) \<Rightarrow> ('x, 'w) game" where
  "seed_event ext s p sched =
     (let (r, s1) = random ext s
      in if r < p
         then (let (e, w) = sched s1 (world s1)
               in s1\<lparr>pendingEvents := pendingEvents s1 @ [e], world := w\<rparr>)
         else s1)"

text \<open>\<open>Math.floor(base + Math.random() * span)\<close> added to the water reserve, capped at 100.\<close>

definition water_recovery ::
  "('x, 'w) ext \<Rightarrow> ('x, 'w) game \<Rightarrow> rat \<Rightarrow> rat \<Rightarrow> int \<times> ('x, 'w) game" where
  "water_recovery ext s base width =
     (let (r, s1) = random ext s;
          recovery = Math_floor (fadd base (fmul r width))
      in (recovery, s1\<lparr>waterReserve := min 100 (fadd (waterReserve s1) (of_int recovery))\<rparr>))"

definition seasons :: "season list" where
  "seasons = [Spring, Summer, Fall, Winter]"

fun indexOf :: "'a list \<Rightarrow> 'a \<Rightarrow> int" where
  "indexOf [] x = - 1"
| "indexOf (y # ys) x = (if x = y then 0 else (let i = indexOf ys x in if i < 0 then i else i + 1))"

definition seasonal_events :: "('x, 'w) ext \<Rightarrow> ('x, 'w) game \<Rightarrow> ('x, 'w) game" where
  "seasonal_events ext s =
     (case season s of
        Summer \<Rightarrow>
          (let s1 = seed_event ext s (3 / 10)
                      (\<lambda>t. scheduleDrought ext (day t) (droughtProbability (climate t)))
           in seed_event ext s1 (4 / 10) (\<lambda>t. scheduleHeatwave ext (day t)))
      | Winter \<Rightarrow>
          (let s1 = seed_event ext s (3 / 10) (\<lambda>t. scheduleFrost ext (day t));
               (winterRecovery, s2) = water_recovery ext s1 5 10
           in if winterRecovery > 5
              then addEvent s2 [S ''Winter precipitation replenished '', N (of_int winterRecovery),
                                S ''% of water reserves.''] False
              else s2)
      | Spring \<Rightarrow>
          (let s1 = seed_event ext s (4 / 10) (\<lambda>t. scheduleRain ext (day t));
               (springRecovery, s2) = water_recovery ext s1 10 15
           in addEvent s2 [S ''Spring rains replenished '', N (of_int springRecovery),
                           S ''% of water reserves.''] False)
      | Fall \<Rightarrow>
          (let s1 = seed_event ext s (3 / 10) (\<lambda>t. scheduleRain ext (day t));
               s2 = seed_event ext s1 (2 / 10) (\<lambda>t. scheduleHeatwave ext (day t));
               (fallRecovery, s3) = water_recovery ext s2 5 10
           in if fallRecovery > 5
              then addEvent s3 [S ''Fall weather replenished '', N (of_int fallRecovery),
                                S ''% of water reserves.''] False
              else s3))"

definition advanceSeason :: "('x, 'w) ext \<Rightarrow> ('x, 'w) game \<Rightarrow> ('x, 'w) game" where
  "advanceSeason ext s =
     (let currentIndex = indexOf seasons (season s);
          s1 = s\<lparr>season := seasons ! nat ((currentIndex + 1) mod 4)\<rparr>;
          s2 = addEvent s1 [S ''Season changed to '', S (season_name (season s1))] False;
          s3 = fluctuateMarketPrices ext s2;
          s4 = seasonal_events ext s3
      in if hasTechnology s4 ''greenhouse'' \<and> (season s4 = Winter \<or> season s4 = Summer)
         then addEvent s4
                [S ''Greenhouse technology is protecting crops from seasonal extremes.''] False
         else s4)"

subsection \<open>Year change\<close>

definition applyAnnualInflation :: "('x, 'w) game \<Rightarrow> ('x, 'w) game" where
  "applyAnnualInflation s =
     s\<lparr>overheadCostPerCell :=
         Math_round (of_int (overheadCostPerCell s) * (1 + annualInflationRate s))\<rparr>"

definition distributeSubsidy ::
  "('x, 'w) ext \<Rightarrow> ('x, 'w) game \<Rightarrow> sustainability_score \<Rightarrow> ('x, 'w) game" where
  "distributeSubsidy ext s sustainabilityScore =
     (let (r, s1) = random ext s;
          randomFactor = fadd (1 / 2) r;
          baseSubsidy =
            (if jsnum_ge (total sustainabilityScore) 70 then 4000
             else if jsnum_ge (total sustainabilityScore) 50 then 2000
             else if jsnum_ge (total sustainabilityScore) 30 then 1000
             else (0::rat))
      in if baseSubsidy > 0
         then (let finalSubsidy = Math_round (fmul baseSubsidy randomFactor)
               in addEvent (s1\<lparr>balance := balance s1 + of_int finalSubsidy\<rparr>)
                    [S ''Received a subsidy of $'', N (of_int finalSubsidy),
                     S '' for your sustainability efforts.''] False)
         else addEvent s1
                [S ''No subsidies granted this year due to low sustainability score.''] False)"

fun jsnum_part :: "jsnum \<Rightarrow> part" where
  "jsnum_part (Fin a) = N (of_int a)"
| "jsnum_part Infinity = NInfinity"
| "jsnum_part NaN = NNaN"

definition decade_milestone :: "('x, 'w) ext \<Rightarrow> ('x, 'w) game \<Rightarrow> ('x, 'w) game" where
  "decade_milestone ext s =
     (if year s mod 10 = 0
      then (let s1 = addEvent s [S ''Major milestone: '', N (of_int (year s)),
                                 S '' years of operation!''] False;
                (r, s2) = random ext s1
            in if r < 7 / 10
               then (let (policyEvent, w) = generatePolicyEvent ext (year s2) (farmHealth s2) (world s2);
                         s3 = s2\<lparr>pendingEvents := pendingEvents s2 @ [policyEvent], world := w\<rparr>
                     in addEvent s3 [S ''New climate policy announced for the next decade.''] False)
               else s2)
      else s)"

definition advanceYear :: "('x, 'w) ext \<Rightarrow> ('x, 'w) game \<Rightarrow> ('x, 'w) game" where
  "advanceYear ext s =
     (let s1 = s\<lparr>year := year s + 1\<rparr>;
          s2 = applyAnnualInflation s1;
          (v, w) = calculateFarmValue ext (grid s2) (technologies s2) (world s2);
          s3 = s2\<lparr>farmValue := v, world := w\<rparr>;
          sustainabilityScore = calculateSustainabilityScore ext s3;
          s4 = emit s3 (LoggerLog [S ''Year '', N (of_int (year s3)), S '' Sustainability Score: '',
                                   jsnum_part (total sustainabilityScore)] (Some 1));
          s5 = s4\<lparr>climate := (climate s4)\<lparr>droughtProbability :=
                        fadd (droughtProbability (climate s4)) (fl (5 / 1000))\<rparr>\<rparr>;
          s6 = s5\<lparr>climate := (climate s5)\<lparr>heatwaveProbability :=
                        fadd (heatwaveProbability (climate s5)) (fl (5 / 1000))\<rparr>\<rparr>;
          s7 = addEvent s6 [S ''Happy New Year! Completed Year '', N (of_int (year s6 - 1)),
                            S '' of farming.''] False;
          s8 = distributeSubsidy ext s7 sustainabilityScore
      in decade_milestone ext s8)"

subsection \<open>Pending events\<close>

text \<open>The body of \<open>activeEvents.forEach\<close>: the \<open>switch\<close> on the event's type.\<close>

definition handle_weather ::
  "('x, 'w) game \<Rightarrow> string \<Rightarrow> message \<Rightarrow> 'x weather_result \<Rightarrow> 'x option \<Rightarrow> ('x, 'w) game" where
  "handle_weather s kind ended r sev =
     (if \<not> skipped r
      then (let s1 = s\<lparr>waterReserve := wr_waterReserve r\<rparr>;
                s2 = addEvent s1 (wr_message r) True
            in if continueEvent r
               then s2\<lparr>pendingEvents := pendingEvents s2 @
                        [\<lparr>ev_type = kind, ev_day = day s2 + 1, duration = nextDuration r,
                          severity = sev, ev_message = [], ev_isAlert = False,
                          ev_payload = None\<rparr>]\<rparr>
               else addEvent s2 ended False)
      else s)"

definition handle_event :: "('x, 'w) ext \<Rightarrow> ('x, 'w) game \<Rightarrow> 'x pending_event \<Rightarrow> ('x, 'w) game" where
  "handle_event ext s event =
     (if ev_type event = ''rain''
      then (let ((rainResult, g), w) =
                  applyRainEvent ext event (grid s) (waterReserve s) (researchedTechs s) (world s);
                s1 = s\<lparr>grid := g, world := w, waterReserve := rr_waterReserve rainResult\<rparr>
            in addEvent s1 (rr_message rainResult) False)
      else if ev_type event = ''drought''
      then (let ((droughtResult, g), w) =
                  applyDroughtEvent ext event (grid s) (waterReserve s) (researchedTechs s) (world s)
            in handle_weather (s\<lparr>grid := g, world := w\<rparr>) ''drought''
                 [S ''The drought has ended.''] droughtResult (wr_severity droughtResult))
      else if ev_type event = ''heatwave''
      then (let ((heatwaveResult, g), w) =
                  applyHeatwaveEvent ext event (grid s) (waterReserve s) (researchedTechs s) (world s)
            in handle_weather (s\<lparr>grid := g, world := w\<rparr>) ''heatwave''
                 [S ''The heatwave has ended.''] heatwaveResult None)
      else if ev_type event = ''frost''
      then (let ((frostMessage, g), w) =
                  applyFrostEvent ext event (grid s) (researchedTechs s) (world s)
            in addEvent (s\<lparr>grid := g, world := w\<rparr>) frostMessage True)
      else if ev_type event = ''market''
      then (let (marketResult, w) = applyMarketEvent ext event (marketPrices s) (crops ext) (world s)
            in addEvent (s\<lparr>marketPrices := mr_marketPrices marketResult, world := w\<rparr>)
                 (mr_message marketResult) False)
      else if ev_type event = ''policy''
      then (let (policyResult, w) = applyPolicyEvent ext event (balance s) (world s)
            in addEvent (s\<lparr>balance := pr_newBalance policyResult, world := w\<rparr>)
                 (pr_message policyResult) (balanceChange policyResult < 0))
      else if ev_type event = ''technology''
      then (let ((techResult, techs), w) =
                  applyTechnologyEvent ext event (balance s) (researchedTechs s) (world s)
            in addEvent (s\<lparr>balance := tr_newBalance techResult, researchedTechs := techs,
                           world := w\<rparr>) (tr_message techResult) False)
      else s)"

definition activeEvents :: "('x, 'w) game \<Rightarrow> 'x pending_event list" where
  "activeEvents s = filter (\<lambda>event. ev_day event = day s) (pendingEvents s)"

definition processPendingEvents :: "('x, 'w) ext \<Rightarrow> ('x, 'w) game \<Rightarrow> ('x, 'w) game" where
  "processPendingEvents ext s =
     (let s1 = foldl (handle_event ext) s (activeEvents s)
      in s1\<lparr>pendingEvents := filter (\<lambda>event. ev_day event \<noteq> day s1) (pendingEvents s1)\<rparr>)"

subsection \<open>Test mode\<close>

definition terminateTest :: "('x, 'w) game \<Rightarrow> ('x, 'w) game" where
  "terminateTest s =
     (let s1 = s\<lparr>paused := True\<rparr>
      in if nextTestCallback s1 then emit s1 SetTimeout else s1)"

definition runTestUpdate :: "('x, 'w) game \<Rightarrow> ('x, 'w) game" where
  "runTestUpdate s =
     (if autoTerminate s \<and> (year s \<ge> testEndYear s \<or> balance s \<le> 0)
      then terminateTest
             (emit s (LoggerLog [S ''Test termination condition met. Year: '', N (of_int (year s)),
                                 S '', Balance: '', N (balance s)] None))
      else s)"

subsection \<open>The tick\<close>

text \<open>The steps of \<open>update\<close>, in the order of its statements.\<close>

definition advance_day :: "('x, 'w) game \<Rightarrow> ('x, 'w) game" where
  "advance_day s = s\<lparr>day := day s + 1, seasonDay := seasonDay s + 1\<rparr>"

definition check_season :: "('x, 'w) ext \<Rightarrow> ('x, 'w) game \<Rightarrow> ('x, 'w) game" where
  "check_season ext s = (if seasonDay s > 90 then advanceSeason ext (s\<lparr>seasonDay := 1\<rparr>) else s)"

definition check_year :: "('x, 'w) ext \<Rightarrow> ('x, 'w) game \<Rightarrow> ('x, 'w) game" where
  "check_year ext s = (if day s > 360 then advanceYear ext (s\<lparr>day := 1\<rparr>) else s)"

definition update_farmHealth :: "('x, 'w) ext \<Rightarrow> ('x, 'w) game \<Rightarrow> ('x, 'w) game" where
  "update_farmHealth ext s =
     (let (h, w) = calculateFarmHealth ext (grid s) (waterReserve s) (world s)
      in emit (s\<lparr>farmHealth := h, world := w\<rparr>) UiUpdateHUD)"

definition random_event :: "('x, 'w) ext \<Rightarrow> ('x, 'w) game \<Rightarrow> ('x, 'w) game" where
  "random_event ext s =
     (let (r, s1) = random ext s
      in if r < 1 / 100
         then (let farmState = \<lparr>fs_climate = climate s1, fs_day = day s1, fs_season = season s1,
                                fs_waterReserve = waterReserve s1, fs_farmHealth = farmHealth s1,
                                fs_balance = balance s1,
                                fs_researchedTechs = researchedTechs s1\<rparr>;
                   (newEvent, w) = generateRandomEvent ext farmState (world s1);
                   s2 = s1\<lparr>world := w\<rparr>
               in case newEvent of
                    None \<Rightarrow> s2
                  | Some e \<Rightarrow> addEvent (s2\<lparr>pendingEvents := pendingEvents s2 @ [e]\<rparr>)
                               (ev_message e) (ev_isAlert e))
         else s1)"

definition before_events :: "('x, 'w) ext \<Rightarrow> ('x, 'w) game \<Rightarrow> ('x, 'w) game" where
  "before_events ext s =
     (let s1 = advance_day s;
          s2 = payDailyOverhead s1;
          s3 = updateFarm ext s2;
          s4 = check_season ext s3
      in check_year ext s4)"

definition update :: "('x, 'w) ext \<Rightarrow> ('x, 'w) game \<Rightarrow> ('x, 'w) game" where
  "update ext s =
     (let s5 = before_events ext s;
          s6 = processPendingEvents ext s5;
          s7 = update_farmHealth ext s6;
          s8 = random_event ext s7
      in if testMode s8 then runTestUpdate s8 else s8)"

subsection \<open>Player actions\<close>

text \<open>
  An action returns \<open>true\<close> or \<open>false\<close>, or raises \<open>TypeError\<close> when it reads a property of
  \<open>undefined\<close>. What it changed before raising stays changed.
\<close>

datatype outcome = Returned bool | TypeError

text \<open>\<open>this.grid[row][col]\<close>: a missing row raises at once; a missing column gives
  \<open>undefined\<close>, which raises when the action first reads one of its properties.\<close>

datatype 'a lookup = NoRow | NoCell | Cell 'a

definition grid_lookup :: "'x farm_grid \<Rightarrow> nat \<Rightarrow> nat \<Rightarrow> 'x cell lookup" where
  "grid_lookup g row col =
     (if row < length g
      then (if col < length (g ! row) then Cell (g ! row ! col) else NoCell)
      else NoRow)"

definition set_cell :: "'x farm_grid \<Rightarrow> nat \<Rightarrow> nat \<Rightarrow> 'x cell \<Rightarrow> 'x farm_grid" where
  "set_cell g row col c = g[row := (g ! row)[col := c]]"

definition inflationMultiplier :: "('x, 'w) game \<Rightarrow> rat" where
  "inflationMultiplier s = Math_pow (1 + annualInflationRate s) (year s - 1)"

definition plantingCost :: "('x, 'w) game \<Rightarrow> crop \<Rightarrow> int" where
  "plantingCost s newCrop = Math_round (basePrice newCrop * (4 / 10) * inflationMultiplier s)"

definition irrigationCost :: "('x, 'w) game \<Rightarrow> int" where
  "irrigationCost s = Math_round (200 * inflationMultiplier s)"

definition fertilizeCost :: "('x, 'w) game \<Rightarrow> int" where
  "fertilizeCost s = Math_round (300 * inflationMultiplier s)"

text \<open>\<open>ui.updateHUD(); ui.showCellInfo(row, col); ui.render()\<close>.\<close>

definition refresh_cell :: "('x, 'w) game \<Rightarrow> nat \<Rightarrow> nat \<Rightarrow> ('x, 'w) game" where
  "refresh_cell s row col = emit (emit (emit s UiUpdateHUD) (UiShowCellInfo row col)) UiRender"

definition plantCrop ::
  "('x, 'w) ext \<Rightarrow> ('x, 'w) game \<Rightarrow> nat \<Rightarrow> nat \<Rightarrow> string \<Rightarrow> outcome \<times> ('x, 'w) game" where
  "plantCrop ext s row col cropId =
     (case grid_lookup (grid s) row col of
        NoRow \<Rightarrow> (TypeError, s)
      | cell \<Rightarrow>
         (case getCropById ext cropId of
            None \<Rightarrow> (Returned False, s)
          | Some newCrop \<Rightarrow>
              if crop_id newCrop = ''empty'' then (Returned False, s)
              else if balance s < of_int (plantingCost s newCrop)
              then (Returned False,
                    addEvent s [S ''Cannot afford to plant '', S (crop_name newCrop),
                                S ''. Cost: $'', N (of_int (plantingCost s newCrop))] True)
              else (let s1 = s\<lparr>balance := balance s - of_int (plantingCost s newCrop)\<rparr>
                    in case cell of
                         Cell c \<Rightarrow>
                           (let (c', w) = cell_plant ext c newCrop (world s1);
                                s2 = s1\<lparr>grid := set_cell (grid s1) row col c', world := w\<rparr>;
                                s3 = refresh_cell s2 row col
                            in (Returned True,
                                addEvent s3 [S ''Planted '', S (crop_name newCrop), S '' at row '',
                                             N (of_nat row + 1), S '', column '', N (of_nat col + 1),
                                             S ''. Cost: $'', N (of_int (plantingCost s newCrop))]
                                  False))
                       | _ \<Rightarrow> (TypeError, s1))))"

definition irrigateCell ::
  "('x, 'w) ext \<Rightarrow> ('x, 'w) game \<Rightarrow> nat \<Rightarrow> nat \<Rightarrow> outcome \<times> ('x, 'w) game" where
  "irrigateCell ext s row col =
     (case grid_lookup (grid s) row col of
        Cell c \<Rightarrow>
          if crop_id (crop c) = ''empty''
          then (Returned False, addEvent s [S ''Cannot irrigate an empty plot.''] True)
          else if irrigated c
          then (Returned False, addEvent s [S ''This plot is already irrigated.''] True)
          else if balance s < of_int (irrigationCost s)
          then (Returned False,
                addEvent s [S ''Cannot afford irrigation. Cost: $'', N (of_int (irrigationCost s))]
                  True)
          else (let s1 = s\<lparr>balance := balance s - of_int (irrigationCost s)\<rparr>;
                    waterEfficiency = getTechEffectValue ext ''waterEfficiency'' (researchedTechs s1) 1;
                    (c1, w) = cell_irrigate ext c waterEfficiency (world s1);
                    c2 = (if hasTechnology s1 ''ai_irrigation''
                          then c1\<lparr>expectedYield := min 150 (expectedYield c1 + 10)\<rparr>
                          else c1);
                    s2 = s1\<lparr>grid := set_cell (grid s1) row col c2, world := w\<rparr>;
                    s3 = refresh_cell s2 row col
                in (Returned True,
                    addEvent s3 [S ''Irrigated plot at row '', N (of_nat row + 1), S '', column '',
                                 N (of_nat col + 1), S ''. Cost: $'', N (of_int (irrigationCost s))]
                      False))
      | _ \<Rightarrow> (TypeError, s))"

definition fertilizeCell ::
  "('x, 'w) ext \<Rightarrow> ('x, 'w) game \<Rightarrow> nat \<Rightarrow> nat \<Rightarrow> outcome \<times> ('x, 'w) game" where
  "fertilizeCell ext s row col =
     (case grid_lookup (grid s) row col of
        Cell c \<Rightarrow>
          if crop_id (crop c) = ''empty''
          then (Returned False, addEvent s [S ''Cannot fertilize an empty plot.''] True)
          else if fertilized c
          then (Returned False, addEvent s [S ''This plot is already fertilized.''] True)
          else if balance s < of_int (fertilizeCost s)
          then (Returned False,
                addEvent s [S ''Cannot afford fertilizer. Cost: $'', N (of_int (fertilizeCost s))]
                  True)
          else (let s1 = s\<lparr>balance := balance s - of_int (fertilizeCost s)\<rparr>;
                    fertilizerEfficiency =
                      getTechEffectValue ext ''fertilizerEfficiency'' (researchedTechs s1) 1;
                    (c1, w) = cell_fertilize ext c fertilizerEfficiency (world s1);
                    s2 = s1\<lparr>grid := set_cell (grid s1) row col c1, world := w\<rparr>;
                    s3 = refresh_cell s2 row col
                in (Returned True,
                    addEvent s3 [S ''Fertilized plot at row '', N (of_nat row + 1), S '', column '',
                                 N (of_nat col + 1), S ''. Cost: $'', N (of_int (fertilizeCost s))]
                      False))
      | _ \<Rightarrow> (TypeError, s))"

definition harvestCell ::
  "('x, 'w) ext \<Rightarrow> ('x, 'w) game \<Rightarrow> nat \<Rightarrow> nat \<Rightarrow> outcome \<times> ('x, 'w) game" where
  "harvestCell ext s row col =
     (case grid_lookup (grid s) row col of
        Cell c \<Rightarrow>
          if crop_id (crop c) = ''empty''
          then (Returned False, addEvent s [S ''Nothing to harvest in this plot.''] True)
          else if \<not> harvestReady c
          then (Returned False, addEvent s [S ''Crop is not ready for harvest yet.''] True)
          else (let marketPrice =
                      (case marketPrices s (crop_id (crop c)) of
                         None \<Rightarrow> 1
                       | Some p \<Rightarrow> if p = 0 then 1 else p);
                    ((result, c1), w) = cell_harvest ext c (waterReserve s) marketPrice (world s);
                    s1 = s\<lparr>balance := balance s + hr_value result,
                           grid := set_cell (grid s) row col c1, world := w\<rparr>;
                    s2 = refresh_cell s1 row col
                in (Returned True,
                    addEvent s2 [S ''Harvested '', S (hr_cropName result), S '' for $'',
                                 N (hr_value result), S ''. Yield: '',
                                 N (hr_yieldPercentage result), S ''%''] False))
      | _ \<Rightarrow> (TypeError, s))"

subsection \<open>Research\<close>

text \<open>\<open>tech.researched = true\<close> on the entry \<open>find\<close> returned: the first with that id.\<close>

fun mark_researched :: "string \<Rightarrow> technology list \<Rightarrow> technology list" where
  "mark_researched techId [] = []"
| "mark_researched techId (t # ts) =
     (if tech_id t = techId then t\<lparr>researched := True\<rparr> # ts else t # mark_researched techId ts)"

text \<open>The condition \<open>if (tech.effects.soilHealth)\<close> holds for a number other than 0.\<close>

definition applyTechnologyEffects :: "('x, 'w) game \<Rightarrow> technology \<Rightarrow> ('x, 'w) game" where
  "applyTechnologyEffects s tech =
     (let s1 = (case effects_soilHealth tech of
                  None \<Rightarrow> s
                | Some m \<Rightarrow>
                    if m = 0 then s
                    else s\<lparr>grid := map (map (\<lambda>c. c\<lparr>soilHealth := min 100 (soilHealth c * m)\<rparr>))
                                     (grid s)\<rparr>)
      in emit s1 UiRender)"

definition researchTechnology ::
  "('x, 'w) ext \<Rightarrow> ('x, 'w) game \<Rightarrow> string \<Rightarrow> outcome \<times> ('x, 'w) game" where
  "researchTechnology ext s techId =
     (case find (\<lambda>t. tech_id t = techId) (technologies s) of
        None \<Rightarrow> (Returned False, s)
      | Some tech \<Rightarrow>
          if researched tech then (Returned False, s)
          else if \<not> checkTechPrerequisites ext tech (researchedTechs s)
          then (Returned False,
                addEvent s [S ''Cannot research '', S (tech_name tech),
                            S '' - prerequisites not met.''] True)
          else if balance s < cost tech
          then (Returned False,
                addEvent s [S ''Cannot afford to research '', S (tech_name tech),
                            S ''. Cost: $'', N (cost tech)] True)
          else (let s1 = s\<lparr>balance := balance s - cost tech,
                           technologies := mark_researched techId (technologies s),
                           researchedTechs := researchedTechs s @ [tech_id tech]\<rparr>;
                    s2 = applyTechnologyEffects s1 (tech\<lparr>researched := True\<rparr>);
                    s3 = emit (emit s2 UiUpdateHUD) UiShowResearchModal
                in (Returned True,
                    addEvent s3 [S ''Researched '', S (tech_name tech), S '' for $'', N (cost tech)]
                      False)))"

subsection \<open>A session\<close>

text \<open>
  Between two ticks the player's input runs any number of actions, on the same thread
  and on the same state. A session is a sequence of ticks and actions; an action that
  raised leaves the state as it had made it.
\<close>

datatype step =
    Tick
  | Plant nat nat string
  | Irrigate nat nat
  | Fertilize nat nat
  | Harvest nat nat
  | Research string

fun do_step :: "('x, 'w) ext \<Rightarrow> ('x, 'w) game \<Rightarrow> step \<Rightarrow> ('x, 'w) game" where
  "do_step ext s Tick = update ext s"
| "do_step ext s (Plant row col cropId) = snd (plantCrop ext s row col cropId)"
| "do_step ext s (Irrigate row col) = snd (irrigateCell ext s row col)"
| "do_step ext s (Fertilize row col) = snd (fertilizeCell ext s row col)"
| "do_step ext s (Harvest row col) = snd (harvestCell ext s row col)"
| "do_step ext s (Research techId) = snd (researchTechnology ext s techId)"

definition play :: "('x, 'w) ext \<Rightarrow> ('x, 'w) game \<Rightarrow> step list \<Rightarrow> ('x, 'w) game" where
  "play ext s steps = foldl (do_step ext) s steps"

section \<open>Notions used to state the properties\<close>

text \<open>The cycle of the seasons as the specification words it.\<close>

fun next_season :: "season \<Rightarrow> season" where
  "next_season Spring = Summer"
| "next_season Summer = Fall"
| "next_season Fall = Winter"
| "next_season Winter = Spring"

text \<open>The seven event types \<open>processPendingEvents\<close> has a \<open>case\<close> for.\<close>

definition recognized_types :: "string list" where
  "recognized_types =
     [''rain'', ''drought'', ''heatwave'', ''frost'', ''market'', ''policy'', ''technology'']"

text \<open>What the drought or heatwave handler answers for an event in a given state.\<close>

definition weather_outcome ::
  "('x, 'w) ext \<Rightarrow> ('x, 'w) game \<Rightarrow> 'x pending_event \<Rightarrow> 'x weather_result" where
  "weather_outcome ext s event =
     (if ev_type event = ''drought''
      then fst (fst (applyDroughtEvent ext event (grid s) (waterReserve s) (researchedTechs s)
                       (world s)))
      else fst (fst (applyHeatwaveEvent ext event (grid s) (waterReserve s) (researchedTechs s)
                       (world s))))"

text \<open>The object a continuing drought or heatwave pushes for the next day; only the
  drought carries its severity on.\<close>

definition continuation :: "string \<Rightarrow> int \<Rightarrow> 'x weather_result \<Rightarrow> 'x pending_event" where
  "continuation kind today r =
     \<lparr>ev_type = kind, ev_day = today + 1, duration = nextDuration r,
      severity = (if kind = ''drought'' then wr_severity r else None),
      ev_message = [], ev_isAlert = False, ev_payload = None\<rparr>"

text \<open>The collaborators of events.js name the type of the event they build:
  \<open>scheduleDrought\<close> returns a drought, and so on.\<close>

definition schedulers_typed :: "('x, 'w) ext \<Rightarrow> bool" where
  "schedulers_typed ext \<longleftrightarrow>
     (\<forall>d p w. ev_type (fst (scheduleDrought ext d p w)) = ''drought'')
     \<and> (\<forall>d w. ev_type (fst (scheduleHeatwave ext d w)) = ''heatwave'')
     \<and> (\<forall>d w. ev_type (fst (scheduleFrost ext d w)) = ''frost'')
     \<and> (\<forall>d w. ev_type (fst (scheduleRain ext d w)) = ''rain'')"

text \<open>The event types the seeding of a new season can enqueue.\<close>

fun seeded_types :: "season \<Rightarrow> string list" where
  "seeded_types Summer = [''drought'', ''heatwave'']"
| "seeded_types Winter = [''frost'']"
| "seeded_types Spring = [''rain'']"
| "seeded_types Fall = [''rain'', ''heatwave'']"

text \<open>Since the queue was \<open>base\<close>, only events of the types \<open>T\<close> have been appended.\<close>

definition only_enqueued ::
  "string list \<Rightarrow> 'x pending_event list \<Rightarrow> ('x, 'w) game \<Rightarrow> bool" where
  "only_enqueued T base s \<longleftrightarrow>
     (\<exists>new. pendingEvents s = base @ new \<and> (\<forall>e \<in> set new. ev_type e \<in> set T))"


text \<open>The simulation state an action must leave alone when it rejects.\<close>

definition same_simulation :: "('x, 'w) game \<Rightarrow> ('x, 'w) game \<Rightarrow> bool" where
  "same_simulation s s' \<longleftrightarrow>
     balance s' = balance s \<and> grid s' = grid s \<and> researchedTechs s' = researchedTechs s
     \<and> technologies s' = technologies s \<and> waterReserve s' = waterReserve s
     \<and> marketPrices s' = marketPrices s \<and> pendingEvents s' = pendingEvents s
     \<and> day s' = day s \<and> year s' = year s \<and> world s' = world s"

text \<open>
  The state \<open>s\<close> once an alert with the message \<open>m\<close> has been logged, and nothing else done:
  one more entry at the front of the event log, with the season and the year, the message
  and the alert flag (a log of 20 entries loses its oldest one); the events list redrawn
  and the message sent to the logger at level 0.
\<close>

definition with_alert :: "('x, 'w) game \<Rightarrow> message \<Rightarrow> ('x, 'w) game" where
  "with_alert s m =
     s\<lparr>events :=
         \<lparr>date = [S (season_name (season s)), S '', Year '', N (of_int (year s))],
          message = m, isAlert = True\<rparr>
         # (if 20 \<le> length (events s) then butlast (events s) else events s),
       calls := calls s @ [UiUpdateEventsList, LoggerLog m (Some 0)]\<rparr>"

text \<open>An action rejected with the alert \<open>m\<close>: it returns \<open>false\<close> and leaves the state as it
  was but for that alert.\<close>

definition rejected_with_alert ::
  "('x, 'w) game \<Rightarrow> message \<Rightarrow> outcome \<times> ('x, 'w) game \<Rightarrow> bool" where
  "rejected_with_alert s m r \<longleftrightarrow> fst r = Returned False \<and> snd r = with_alert s m"

section \<open>A concrete farm\<close>

text \<open>
  A stand-in for the collaborators and the state the constructor builds, with
  \<open>Math.random\<close> answering 0 every time. Droughts and heatwaves are skipped once
  \<open>drought_resistant\<close> is researched and go on while their duration exceeds 1.
\<close>

definition empty_crop :: crop where
  "empty_crop = \<lparr>crop_id = ''empty'', crop_name = ''Empty Plot'', basePrice = 0\<rparr>"

definition corn :: crop where
  "corn = \<lparr>crop_id = ''corn'', crop_name = ''Corn'', basePrice = 1000\<rparr>"

definition demo_cell :: "nat cell" where
  "demo_cell = \<lparr>crop = empty_crop, soilHealth = 100, irrigated = False, fertilized = False,
                harvestReady = False, consecutivePlantings = 0, expectedYield = 0,
                cell_internal = 0\<rparr>"

definition demo_event :: "string \<Rightarrow> int \<Rightarrow> nat pending_event" where
  "demo_event kind d =
     \<lparr>ev_type = kind, ev_day = d, duration = Some 3, severity = Some 1, ev_message = [S kind],
      ev_isAlert = False, ev_payload = None\<rparr>"

definition demo_weather ::
  "nat pending_event \<Rightarrow> rat \<Rightarrow> string list \<Rightarrow> nat weather_result" where
  "demo_weather event wr techs =
     \<lparr>skipped = (''drought_resistant'' \<in> set techs), wr_waterReserve = max 0 (wr - 5),
      wr_message = [S (ev_type event)],
      continueEvent = (case duration event of None \<Rightarrow> False | Some d \<Rightarrow> 1 < d),
      nextDuration = map_option (\<lambda>d. d - 1) (duration event), wr_severity = severity event\<rparr>"

definition demo_ext :: "(nat, nat) ext" where
  "demo_ext =
     \<lparr>Math_random = (\<lambda>w. (0, Suc w)),
      crops = [empty_crop, corn],
      getCropById = (\<lambda>i. find (\<lambda>c. crop_id c = i) [empty_crop, corn]),
      checkTechPrerequisites = (\<lambda>t techs. list_all (\<lambda>p. p \<in> set techs) (prerequisites t)),
      getTechEffectValue = (\<lambda>name techs d. d),
      calculateFarmHealth = (\<lambda>g wr w. (85, w)),
      calculateFarmValue = (\<lambda>g ts w. (50000, w)),
      cell_update = (\<lambda>c wr techs w. ((''growing'', c), w)),
      cell_plant = (\<lambda>c cr w. (c\<lparr>crop := cr\<rparr>, w)),
      cell_irrigate = (\<lambda>c e w. (c\<lparr>irrigated := True\<rparr>, w)),
      cell_fertilize = (\<lambda>c e w. (c\<lparr>fertilized := True\<rparr>, w)),
      cell_harvest = (\<lambda>c wr p w.
        ((\<lparr>hr_value = basePrice (crop c) * p, hr_cropName = crop_name (crop c),
           hr_yieldPercentage = 100\<rparr>, c\<lparr>crop := empty_crop, harvestReady := False\<rparr>), w)),
      generateRandomEvent = (\<lambda>fs w. (None, w)),
      scheduleDrought = (\<lambda>d p w. (demo_event ''drought'' (d + 10), w)),
      scheduleHeatwave = (\<lambda>d w. (demo_event ''heatwave'' (d + 10), w)),
      scheduleFrost = (\<lambda>d w. (demo_event ''frost'' (d + 10), w)),
      scheduleRain = (\<lambda>d w. (demo_event ''rain'' (d + 10), w)),
      generatePolicyEvent = (\<lambda>y h w. (demo_event ''policy'' 30, w)),
      applyRainEvent = (\<lambda>e g wr techs w.
        ((\<lparr>rr_waterReserve = min 100 (wr + 10), rr_message = [S ''Rain'']\<rparr>, g), w)),
      applyDroughtEvent = (\<lambda>e g wr techs w. ((demo_weather e wr techs, g), w)),
      applyHeatwaveEvent = (\<lambda>e g wr techs w. ((demo_weather e wr techs, g), w)),
      applyFrostEvent = (\<lambda>e g techs w. (([S ''Frost''], g), w)),
      applyMarketEvent = (\<lambda>e mp cs w. (\<lparr>mr_marketPrices = mp, mr_message = [S ''Market'']\<rparr>, w)),
      applyPolicyEvent = (\<lambda>e b w.
        (\<lparr>pr_newBalance = b - 100, pr_message = [S ''Policy''], balanceChange = - 100\<rparr>, w)),
      applyTechnologyEvent = (\<lambda>e b techs w.
        ((\<lparr>tr_newBalance = b, tr_message = [S ''Technology'']\<rparr>, techs), w))\<rparr>"

definition demo_tech :: technology where
  "demo_tech = \<lparr>tech_id = ''drip_irrigation'', tech_name = ''Drip Irrigation'', cost = 25000,
                prerequisites = [], effects_soilHealth = None, researched = False\<rparr>"

definition demo_game :: "(nat, nat) game" where
  "demo_game =
     \<lparr>gridSize = 10, day = 1, year = 1, season = Spring, seasonDay = 1, balance = 20000,
      farmValue = 50000, farmHealth = 85, waterReserve = 60, paused = False,
      overheadCostPerCell = 10, annualInflationRate = 3 / 100,
      grid = replicate 10 (replicate 10 demo_cell), technologies = [demo_tech],
      researchedTechs = [], events = [], pendingEvents = [],
      marketPrices = [''corn'' \<mapsto> 4 / 5],
      climate = \<lparr>avgTemp = 70, rainfall = 20, droughtProbability = fl (5 / 100),
                  floodProbability = fl (3 / 100), heatwaveProbability = fl (8 / 100)\<rparr>,
      testMode = False, autoTerminate = False, testEndYear = 50, nextTestCallback = False,
      calls = [], world = 0\<rparr>"

definition planted_game :: "(nat, nat) game" where
  "planted_game =
     demo_game\<lparr>grid := (demo_cell\<lparr>crop := corn\<rparr> # replicate 9 demo_cell)
                         # replicate 9 (replicate 10 demo_cell)\<rparr>"

definition summer_game :: "(nat, nat) game" where
  "summer_game = demo_game\<lparr>day := 181, season := Summer, seasonDay := 1\<rparr>"

definition unknown_event_game :: "(nat, nat) game" where
  "unknown_event_game =
     demo_game\<lparr>pendingEvents := [demo_event ''meteor'' 1, demo_event ''rain'' 5]\<rparr>"

definition skipped_drought_game :: "(nat, nat) game" where
  "skipped_drought_game =
     demo_game\<lparr>day := 200, season := Fall, seasonDay := 20,
               researchedTechs := [''drought_resistant''],
               pendingEvents := [demo_event ''drought'' 200]\<rparr>"

definition last_day_game :: "(nat, nat) game" where
  "last_day_game =
     demo_game\<lparr>day := 359, season := Winter, seasonDay := 89,
               pendingEvents := [demo_event ''drought'' 360]\<rparr>"

definition poor_game :: "(nat, nat) game" where
  "poor_game = planted_game\<lparr>balance := 100\<rparr>"

section \<open>Rounding to the nearest double\<close>

text \<open>The rounded value is at most half a unit in the last place away: for a number below
  2 in absolute value that is at most \<open>2 ^ - 53\<close>.\<close>

lemma rne_error: "\<bar>of_int (rne z) - z\<bar> \<le> 1 / 2"
proof -
  have "of_int \<lfloor>z\<rfloor> \<le> z" "z < of_int \<lfloor>z\<rfloor> + 1"
    by linarith+
  then show ?thesis
    by (auto simp: rne_def Let_def abs_le_iff)
qed

lemma two_powi_pos [simp]: "0 < (2::rat) powi k"
  by (simp add: power_int_def)

lemma two_powi_mono: "a \<le> b \<Longrightarrow> (2::rat) powi a \<le> 2 powi b"
  by (rule power_int_increasing) simp_all

lemma two_powi_less_imp: "(2::rat) powi a < 2 powi b \<Longrightarrow> a < b"
proof (rule ccontr)
  assume a: "(2::rat) powi a < 2 powi b" and "\<not> a < b"
  then have "(2::rat) powi b \<le> 2 powi a"
    by (intro two_powi_mono) simp
  with a show False by simp
qed

lemma ilog2_le:
  assumes "0 < x"
  shows "2 powi (ilog2 x) \<le> x"
proof -
  obtain p q where pq: "quotient_of x = (p, q)"
    by (cases "quotient_of x")
  then have q: "0 < q" and x: "x = of_int p / of_int q"
    using quotient_of_denom_pos quotient_of_div by blast+
  then have p: "0 < p"
    using assms by (simp add: zero_less_divide_iff)
  let ?d = "bitlen p - bitlen q"
  show ?thesis
  proof (cases "2 powi ?d \<le> x")
    case True
    then show ?thesis by (simp add: ilog2_def pq)
  next
    case False
    have bp: "2 ^ nat (bitlen p - 1) \<le> p" and bq: "q < 2 ^ nat (bitlen q)"
      using bitlen_bounds [OF p] bitlen_bounds [OF q] by simp_all
    have p1: "1 \<le> bitlen p"
      using p bitlen_eq_zero_iff [of p] bitlen_nonneg [of p] by linarith
    have "(2::rat) powi (bitlen p - 1) = 2 ^ nat (bitlen p - 1)"
      using p1 by (simp add: power_int_def)
    also have "\<dots> \<le> of_int p"
      using bp by (metis of_int_le_iff of_int_numeral of_int_power)
    finally have lo: "(2::rat) powi (bitlen p - 1) \<le> of_int p" .
    have "of_int q \<le> (2::rat) ^ nat (bitlen q)"
      using bq by (metis less_imp_le of_int_le_iff of_int_numeral of_int_power)
    also have "\<dots> = 2 powi (bitlen q)"
      using bitlen_nonneg [of q] by (simp add: power_int_def)
    finally have hi: "of_int q \<le> (2::rat) powi (bitlen q)" .
    have "(2::rat) powi (?d - 1) = 2 powi (bitlen p - 1) / 2 powi (bitlen q)"
      by (simp add: power_int_diff)
    also have "\<dots> \<le> of_int p / of_int q"
      using lo hi q p by (intro frac_le) simp_all
    finally have "(2::rat) powi (?d - 1) \<le> x"
      by (simp add: x)
    then show ?thesis
      using False by (simp add: ilog2_def pq)
  qed
qed

lemma fl_error:
  assumes "x \<noteq> 0"
  shows "\<bar>fl x - x\<bar> \<le> 2 powi (max (ilog2 \<bar>x\<bar>) (- 1022) - 53)"
proof -
  define q :: rat where "q = 2 powi (max (ilog2 \<bar>x\<bar>) (- 1022) - 52)"
  define m :: rat where "m = of_int (rne (\<bar>x\<bar> / q))"
  have q: "0 < q" by (simp add: q_def)
  have f: "fl x = sgn x * m * q"
    using assms by (simp add: fl_def Let_def q_def m_def)
  have "\<bar>fl x - x\<bar> = \<bar>m * q - \<bar>x\<bar>\<bar>"
  proof (cases "0 < x")
    case True
    then show ?thesis by (simp add: f)
  next
    case False
    with assms have "x < 0" by simp
    then have "fl x - x = - (m * q - \<bar>x\<bar>)"
      by (simp add: f)
    then show ?thesis by (simp only: abs_minus_cancel)
  qed
  also have "m * q - \<bar>x\<bar> = (m - \<bar>x\<bar> / q) * q"
    using q by (simp add: field_simps)
  also have "\<bar>(m - \<bar>x\<bar> / q) * q\<bar> = \<bar>m - \<bar>x\<bar> / q\<bar> * q"
    using q by (simp add: abs_mult)
  also have "\<dots> \<le> 1 / 2 * q"
    using q rne_error [of "\<bar>x\<bar> / q"] by (intro mult_right_mono) (simp_all add: m_def)
  also have "1 / 2 * q = 2 powi (max (ilog2 \<bar>x\<bar>) (- 1022) - 53)"
    by (simp add: q_def power_int_diff)
  finally show ?thesis .
qed

lemma fl_error_below_2:
  assumes "\<bar>x\<bar> < 2"
  shows "\<bar>fl x - x\<bar> \<le> 1 / 2 ^ 53"
proof (cases "x = 0")
  case True
  then show ?thesis by (simp add: fl_def)
next
  case False
  have "2 powi (ilog2 \<bar>x\<bar>) \<le> \<bar>x\<bar>"
    using False by (intro ilog2_le) simp
  then have "(2::rat) powi (ilog2 \<bar>x\<bar>) < 2 powi 1"
    using assms by simp
  then have "ilog2 \<bar>x\<bar> < 1"
    by (rule two_powi_less_imp)
  then have "ilog2 \<bar>x\<bar> \<le> 0"
    by simp
  then have "max (ilog2 \<bar>x\<bar>) (- 1022) - 53 \<le> - 53"
    by simp
  then have "(2::rat) powi (max (ilog2 \<bar>x\<bar>) (- 1022) - 53) \<le> 2 powi (- 53)"
    by (rule two_powi_mono)
  also have "\<dots> = 1 / 2 ^ 53"
    by (simp add: power_int_minus field_simps)
  finally show ?thesis
    using fl_error [OF False] by linarith
qed

section \<open>Loops keep what each round keeps\<close>

lemma foldl_keeps: "(\<And>a x. g (f a x) = g a) \<Longrightarrow> g (foldl f a xs) = g a"
  by (induction xs arbitrary: a) simp_all

lemma foldl_prefix:
  "(\<And>a x. prefix (g a) (g (f a x))) \<Longrightarrow> prefix (g a) (g (foldl f a xs))"
proof (induction xs arbitrary: a)
  case Nil
  show ?case by simp
next
  case (Cons x xs)
  have "prefix (g a) (g (f a x))" by (rule Cons.prems)
  moreover have "prefix (g (f a x)) (g (foldl f (f a x) xs))"
    by (rule Cons.IH) (rule Cons.prems)
  ultimately show ?case by (auto intro: prefix_order.trans)
qed

section \<open>The calendar fields: who writes them\<close>

text \<open>
  Only \<open>update\<close> itself, \<open>advanceSeason\<close> and \<open>advanceYear\<close> assign \<open>day\<close>, \<open>seasonDay\<close>,
  \<open>season\<close> or \<open>year\<close>; every other method leaves the four alone.
\<close>

lemma emit_clock [simp]:
  "day (emit s c) = day s" "seasonDay (emit s c) = seasonDay s"
  "season (emit s c) = season s" "year (emit s c) = year s"
  by (simp_all add: emit_def)

lemma random_clock [simp]:
  "day (snd (random ext s)) = day s" "seasonDay (snd (random ext s)) = seasonDay s"
  "season (snd (random ext s)) = season s" "year (snd (random ext s)) = year s"
  by (simp_all add: random_def case_prod_beta)

lemma addEvent_clock [simp]:
  "day (addEvent s m a) = day s" "seasonDay (addEvent s m a) = seasonDay s"
  "season (addEvent s m a) = season s" "year (addEvent s m a) = year s"
  by (simp_all add: addEvent_def Let_def)

lemma payDailyOverhead_clock [simp]:
  "day (payDailyOverhead s) = day s" "seasonDay (payDailyOverhead s) = seasonDay s"
  "season (payDailyOverhead s) = season s" "year (payDailyOverhead s) = year s"
  by (simp_all add: payDailyOverhead_def Let_def)

lemma announce_ready_clock [simp]:
  "day (announce_ready s rc) = day s" "seasonDay (announce_ready s rc) = seasonDay s"
  "season (announce_ready s rc) = season s" "year (announce_ready s rc) = year s"
  by (simp_all add: announce_ready_def split: prod.splits)

lemma updateFarm_clock [simp]:
  "day (updateFarm ext s) = day s" "seasonDay (updateFarm ext s) = seasonDay s"
  "season (updateFarm ext s) = season s" "year (updateFarm ext s) = year s"
  by (simp_all add: updateFarm_def Let_def case_prod_beta foldl_keeps)

lemma fluctuate_crop_clock [simp]:
  "day (fluctuate_crop ext s c) = day s" "seasonDay (fluctuate_crop ext s c) = seasonDay s"
  "season (fluctuate_crop ext s c) = season s" "year (fluctuate_crop ext s c) = year s"
  by (simp_all add: fluctuate_crop_def Let_def case_prod_beta split: option.splits)

lemma fluctuateMarketPrices_clock [simp]:
  "day (fluctuateMarketPrices ext s) = day s"
  "seasonDay (fluctuateMarketPrices ext s) = seasonDay s"
  "season (fluctuateMarketPrices ext s) = season s"
  "year (fluctuateMarketPrices ext s) = year s"
  by (simp_all add: fluctuateMarketPrices_def foldl_keeps)

lemma seed_event_clock [simp]:
  "day (seed_event ext s p f) = day s" "seasonDay (seed_event ext s p f) = seasonDay s"
  "season (seed_event ext s p f) = season s" "year (seed_event ext s p f) = year s"
  by (simp_all add: seed_event_def Let_def case_prod_beta)

lemma water_recovery_clock [simp]:
  "day (snd (water_recovery ext s b w)) = day s"
  "seasonDay (snd (water_recovery ext s b w)) = seasonDay s"
  "season (snd (water_recovery ext s b w)) = season s"
  "year (snd (water_recovery ext s b w)) = year s"
  by (simp_all add: water_recovery_def Let_def case_prod_beta)

lemma seasonal_events_clock [simp]:
  "day (seasonal_events ext s) = day s" "seasonDay (seasonal_events ext s) = seasonDay s"
  "season (seasonal_events ext s) = season s" "year (seasonal_events ext s) = year s"
  by (simp_all add: seasonal_events_def Let_def case_prod_beta split: season.splits)

lemma applyAnnualInflation_clock [simp]:
  "day (applyAnnualInflation s) = day s" "seasonDay (applyAnnualInflation s) = seasonDay s"
  "season (applyAnnualInflation s) = season s" "year (applyAnnualInflation s) = year s"
  by (simp_all add: applyAnnualInflation_def)

lemma distributeSubsidy_clock [simp]:
  "day (distributeSubsidy ext s sc) = day s" "seasonDay (distributeSubsidy ext s sc) = seasonDay s"
  "season (distributeSubsidy ext s sc) = season s" "year (distributeSubsidy ext s sc) = year s"
  by (simp_all add: distributeSubsidy_def Let_def case_prod_beta)

lemma decade_milestone_clock [simp]:
  "day (decade_milestone ext s) = day s" "seasonDay (decade_milestone ext s) = seasonDay s"
  "season (decade_milestone ext s) = season s" "year (decade_milestone ext s) = year s"
  by (simp_all add: decade_milestone_def Let_def case_prod_beta)

lemma advanceSeason_clock [simp]:
  "day (advanceSeason ext s) = day s" "seasonDay (advanceSeason ext s) = seasonDay s"
  "year (advanceSeason ext s) = year s"
  by (simp_all add: advanceSeason_def Let_def)

lemma advanceSeason_season: "season (advanceSeason ext s) = next_season (season s)"
  by (cases "season s") (simp_all add: advanceSeason_def Let_def seasons_def)

lemma advanceYear_clock [simp]:
  "day (advanceYear ext s) = day s" "seasonDay (advanceYear ext s) = seasonDay s"
  "season (advanceYear ext s) = season s" "year (advanceYear ext s) = year s + 1"
  by (simp_all add: advanceYear_def Let_def case_prod_beta)

lemma handle_weather_clock [simp]:
  "day (handle_weather s k m r v) = day s" "seasonDay (handle_weather s k m r v) = seasonDay s"
  "season (handle_weather s k m r v) = season s" "year (handle_weather s k m r v) = year s"
  by (simp_all add: handle_weather_def Let_def)

lemma handle_event_clock [simp]:
  "day (handle_event ext s e) = day s" "seasonDay (handle_event ext s e) = seasonDay s"
  "season (handle_event ext s e) = season s" "year (handle_event ext s e) = year s"
  by (simp_all add: handle_event_def Let_def case_prod_beta)

lemma processPendingEvents_clock [simp]:
  "day (processPendingEvents ext s) = day s"
  "seasonDay (processPendingEvents ext s) = seasonDay s"
  "season (processPendingEvents ext s) = season s"
  "year (processPendingEvents ext s) = year s"
  by (simp_all add: processPendingEvents_def Let_def foldl_keeps)

lemma update_farmHealth_clock [simp]:
  "day (update_farmHealth ext s) = day s" "seasonDay (update_farmHealth ext s) = seasonDay s"
  "season (update_farmHealth ext s) = season s" "year (update_farmHealth ext s) = year s"
  by (simp_all add: update_farmHealth_def Let_def case_prod_beta)

lemma random_event_clock [simp]:
  "day (random_event ext s) = day s" "seasonDay (random_event ext s) = seasonDay s"
  "season (random_event ext s) = season s" "year (random_event ext s) = year s"
  by (simp_all add: random_event_def Let_def case_prod_beta split: option.splits)

lemma runTestUpdate_clock [simp]:
  "day (runTestUpdate s) = day s" "seasonDay (runTestUpdate s) = seasonDay s"
  "season (runTestUpdate s) = season s" "year (runTestUpdate s) = year s"
  by (simp_all add: runTestUpdate_def terminateTest_def Let_def)

lemma before_events_clock:
  "day (before_events ext s) = (if day s + 1 > 360 then 1 else day s + 1)"
  "seasonDay (before_events ext s) = (if seasonDay s + 1 > 90 then 1 else seasonDay s + 1)"
  "season (before_events ext s) = (if seasonDay s + 1 > 90 then next_season (season s) else season s)"
  "year (before_events ext s) = (if day s + 1 > 360 then year s + 1 else year s)"
  by (simp_all add: before_events_def check_year_def check_season_def advance_day_def
        Let_def advanceSeason_season)

lemma update_clock_all:
  "day (update ext s) = (if day s + 1 > 360 then 1 else day s + 1)"
  "seasonDay (update ext s) = (if seasonDay s + 1 > 90 then 1 else seasonDay s + 1)"
  "season (update ext s) = (if seasonDay s + 1 > 90 then next_season (season s) else season s)"
  "year (update ext s) = (if day s + 1 > 360 then year s + 1 else year s)"
  by (simp_all add: update_def Let_def before_events_clock)

section \<open>The calendar\<close>

text \<open>
  Claim C5. In every tick the season moves only along the cycle Spring, Summer, Fall,
  Winter, Spring. \<open>seasonDay\<close> goes back to 1 and the season advances exactly when the
  incremented \<open>seasonDay\<close> exceeds 90; \<open>day\<close> goes back to 1 and \<open>year\<close> grows by one exactly
  when the incremented \<open>day\<close> exceeds 360. Each reset reads its own counter only, so either
  can fire without the other and both can fire in the same tick.
\<close>

theorem update_calendar:
  "seasonDay (update ext s) = (if seasonDay s + 1 > 90 then 1 else seasonDay s + 1)
   \<and> season (update ext s) = (if seasonDay s + 1 > 90 then next_season (season s) else season s)
   \<and> day (update ext s) = (if day s + 1 > 360 then 1 else day s + 1)
   \<and> year (update ext s) = (if day s + 1 > 360 then year s + 1 else year s)"
  by (simp add: update_clock_all)

text \<open>Both resets in one tick, the year alone, and the season alone.\<close>

theorem update_calendar_witness:
  "seasonDay (update demo_ext (demo_game\<lparr>day := 360, seasonDay := 90\<rparr>)) = 1
   \<and> season (update demo_ext (demo_game\<lparr>day := 360, seasonDay := 90\<rparr>)) = Summer
   \<and> day (update demo_ext (demo_game\<lparr>day := 360, seasonDay := 90\<rparr>)) = 1
   \<and> year (update demo_ext (demo_game\<lparr>day := 360, seasonDay := 90\<rparr>)) = 2
   \<and> seasonDay (update demo_ext (demo_game\<lparr>day := 360, seasonDay := 45\<rparr>)) = 46
   \<and> season (update demo_ext (demo_game\<lparr>day := 360, seasonDay := 45\<rparr>)) = Spring
   \<and> day (update demo_ext (demo_game\<lparr>day := 360, seasonDay := 45\<rparr>)) = 1
   \<and> year (update demo_ext (demo_game\<lparr>day := 360, seasonDay := 45\<rparr>)) = 2
   \<and> seasonDay (update demo_ext (demo_game\<lparr>day := 100, seasonDay := 90\<rparr>)) = 1
   \<and> season (update demo_ext (demo_game\<lparr>day := 100, seasonDay := 90\<rparr>)) = Summer
   \<and> day (update demo_ext (demo_game\<lparr>day := 100, seasonDay := 90\<rparr>)) = 101
   \<and> year (update demo_ext (demo_game\<lparr>day := 100, seasonDay := 90\<rparr>)) = 1"
  using update_calendar [of demo_ext "demo_game\<lparr>day := 360, seasonDay := 90\<rparr>"]
        update_calendar [of demo_ext "demo_game\<lparr>day := 360, seasonDay := 45\<rparr>"]
        update_calendar [of demo_ext "demo_game\<lparr>day := 100, seasonDay := 90\<rparr>"]
  by (simp add: demo_game_def)

section \<open>The technology score\<close>

lemma rawTechScore_all:
  "set sustainableTechs \<subseteq> set (researchedTechs s) \<Longrightarrow>
   foldl (score_tech s) 0 sustainableTechs = 125"
  by (simp add: sustainableTechs_def score_tech_def hasTechnology_def)

lemma maxTechScore: "int (length sustainableTechs) * 100 = 900"
  by (simp add: sustainableTechs_def)

lemma techScore_formula:
  "techScore (calculateSustainabilityScore ext s) =
   Math_round (fmul (fdiv (of_int (foldl (score_tech s) 0 sustainableTechs)) 900) 100)"
  by (simp add: calculateSustainabilityScore_def Let_def maxTechScore)

lemma techScore_of_125: "Math_round (fmul (fdiv 125 900) 100) = 14"
  by code_simp

text \<open>
  Claim C1 says that the technology score is the sum of the points of the researched
  sustainable technologies normalised against the 125 points they add up to, so that all
  nine researched give 100. The code divides by \<open>maxTechScore = 9 * 100\<close>: with all nine
  researched the score is \<open>round (125 / 900 * 100) = 14\<close> (in doubles the quotient times 100
  is 13.88888888888889).
\<close>

theorem techScore_all_researched:
  assumes "set sustainableTechs \<subseteq> set (researchedTechs s)"
  shows "techScore (calculateSustainabilityScore ext s) = 14"
proof -
  have "foldl (score_tech s) 0 sustainableTechs = 125"
    using assms by (rule rawTechScore_all)
  then have "techScore (calculateSustainabilityScore ext s) =
             Math_round (fmul (fdiv 125 900) 100)"
    by (simp add: techScore_formula)
  also have "\<dots> = 14"
    by (rule techScore_of_125)
  finally show ?thesis .
qed

theorem techScore_all_researched_witness:
  "set sustainableTechs \<subseteq> set (researchedTechs (demo_game\<lparr>researchedTechs := sustainableTechs\<rparr>))
   \<and> techScore (calculateSustainabilityScore demo_ext
         (demo_game\<lparr>researchedTechs := sustainableTechs\<rparr>)) = 14"
  using techScore_all_researched [of "demo_game\<lparr>researchedTechs := sustainableTechs\<rparr>" demo_ext]
  by simp

section \<open>Climate and inflation at the year change\<close>

text \<open>The methods \<open>advanceYear\<close> calls leave the climate, the overhead and the rate alone,
  but for \<open>applyAnnualInflation\<close> and the two climate assignments.\<close>

lemma emit_economy [simp]:
  "climate (emit s c) = climate s" "overheadCostPerCell (emit s c) = overheadCostPerCell s"
  "annualInflationRate (emit s c) = annualInflationRate s"
  by (simp_all add: emit_def)

lemma random_economy [simp]:
  "climate (snd (random ext s)) = climate s"
  "overheadCostPerCell (snd (random ext s)) = overheadCostPerCell s"
  "annualInflationRate (snd (random ext s)) = annualInflationRate s"
  by (simp_all add: random_def case_prod_beta)

lemma addEvent_economy [simp]:
  "climate (addEvent s m a) = climate s"
  "overheadCostPerCell (addEvent s m a) = overheadCostPerCell s"
  "annualInflationRate (addEvent s m a) = annualInflationRate s"
  by (simp_all add: addEvent_def Let_def)

lemma distributeSubsidy_economy [simp]:
  "climate (distributeSubsidy ext s sc) = climate s"
  "overheadCostPerCell (distributeSubsidy ext s sc) = overheadCostPerCell s"
  "annualInflationRate (distributeSubsidy ext s sc) = annualInflationRate s"
  by (simp_all add: distributeSubsidy_def Let_def case_prod_beta)

lemma decade_milestone_economy [simp]:
  "climate (decade_milestone ext s) = climate s"
  "overheadCostPerCell (decade_milestone ext s) = overheadCostPerCell s"
  "annualInflationRate (decade_milestone ext s) = annualInflationRate s"
  by (simp_all add: decade_milestone_def Let_def case_prod_beta)

lemma advanceYear_climate:
  "climate (advanceYear ext s) =
   (climate s)\<lparr>droughtProbability := fadd (droughtProbability (climate s)) (fl (5 / 1000)),
              heatwaveProbability := fadd (heatwaveProbability (climate s)) (fl (5 / 1000))\<rparr>"
  by (simp add: advanceYear_def Let_def case_prod_beta applyAnnualInflation_def)



text \<open>The double nearest to 0.005, and what adding it to a probability does.\<close>

lemma fl_0005: "fl (5 / 1000) = 5764607523034235 / 1152921504606846976"
  by code_simp

lemma drift_of_a_probability:
  assumes "0 \<le> p" "p \<le> 1"
  shows "p < fadd p (fl (5 / 1000))
         \<and> \<bar>fadd p (fl (5 / 1000)) - p - 5 / 1000\<bar> \<le> 1 / 2 ^ 52"
proof -
  let ?c = "5764607523034235 / 1152921504606846976 :: rat"
  have "\<bar>p + ?c\<bar> < 2"
    using assms by simp
  then have "\<bar>fl (p + ?c) - (p + ?c)\<bar> \<le> 1 / 2 ^ 53"
    by (rule fl_error_below_2)
  moreover have "(1::rat) / 2 ^ 53 = 1 / 9007199254740992"
    "(1::rat) / 2 ^ 52 = 1 / 4503599627370496"
    by simp_all
  ultimately have "p < fl (p + ?c) \<and> \<bar>fl (p + ?c) - p - 5 / 1000\<bar> \<le> 1 / 2 ^ 52"
    by (simp only:) linarith
  then show ?thesis
    unfolding fadd_def fl_0005 .
qed

lemma advanceYear_probabilities:
  "droughtProbability (climate (advanceYear ext s))
     = fadd (droughtProbability (climate s)) (fl (5 / 1000))"
  "heatwaveProbability (climate (advanceYear ext s))
     = fadd (heatwaveProbability (climate s)) (fl (5 / 1000))"
  "floodProbability (climate (advanceYear ext s)) = floodProbability (climate s)"
  unfolding advanceYear_climate by simp_all

lemma demo_fl:
  "fl (5 / 100) = 3602879701896397 / 72057594037927936"
  "fl (3 / 100) = 1080863910568919 / 36028797018963968"
  "fl (8 / 100) = 5764607523034235 / 72057594037927936"
  by code_simp+

lemma demo_climate:
  "droughtProbability (climate demo_game) = 3602879701896397 / 72057594037927936"
  "floodProbability (climate demo_game) = 1080863910568919 / 36028797018963968"
  "heatwaveProbability (climate demo_game) = 5764607523034235 / 72057594037927936"
proof -
  have "droughtProbability (climate demo_game) = fl (5 / 100)"
       "floodProbability (climate demo_game) = fl (3 / 100)"
       "heatwaveProbability (climate demo_game) = fl (8 / 100)"
    unfolding demo_game_def by simp_all
  then show
    "droughtProbability (climate demo_game) = 3602879701896397 / 72057594037927936"
    "floodProbability (climate demo_game) = 1080863910568919 / 36028797018963968"
    "heatwaveProbability (climate demo_game) = 5764607523034235 / 72057594037927936"
    unfolding demo_fl .
qed

lemma demo_drift:
  "fadd (3602879701896397 / 72057594037927936) (5764607523034235 / 1152921504606846976)
     = 7926335344172073 / 144115188075855872"
  "fadd (5764607523034235 / 72057594037927936) (5764607523034235 / 1152921504606846976)
     = 6124895493223875 / 72057594037927936"
  "fadd (6124895493223875 / 72057594037927936) (5764607523034235 / 1152921504606846976)
     = 6485183463413515 / 72057594037927936"
  "fsub (6485183463413515 / 72057594037927936) (6124895493223875 / 72057594037927936)
     = 45035996273705 / 9007199254740992"
  by code_simp+

lemma demo_year_changes:
  "droughtProbability (climate (advanceYear demo_ext demo_game))
     = 7926335344172073 / 144115188075855872"
  "heatwaveProbability (climate (advanceYear demo_ext demo_game))
     = 6124895493223875 / 72057594037927936"
  "heatwaveProbability (climate (advanceYear demo_ext (advanceYear demo_ext demo_game)))
     = 6485183463413515 / 72057594037927936"
  unfolding advanceYear_probabilities demo_climate fl_0005 demo_drift by (rule refl)+

text \<open>
  Claim C8, as the code has it. At every year change \<open>droughtProbability\<close> and
  \<open>heatwaveProbability\<close> are each replaced by the double nearest to the sum of their value
  and of the double 0.005: for a value between 0 and 1 that is a strict increase, within
  \<open>2 ^ - 52\<close> of 0.005. \<open>floodProbability\<close> does not drift: \<open>advanceYear\<close> leaves it as it is.
\<close>

theorem advanceYear_climate_drift:
  "droughtProbability (climate (advanceYear ext s))
     = fadd (droughtProbability (climate s)) (fl (5 / 1000))
   \<and> heatwaveProbability (climate (advanceYear ext s))
     = fadd (heatwaveProbability (climate s)) (fl (5 / 1000))
   \<and> floodProbability (climate (advanceYear ext s)) = floodProbability (climate s)
   \<and> (0 \<le> droughtProbability (climate s) \<and> droughtProbability (climate s) \<le> 1 \<longrightarrow>
        droughtProbability (climate s) < droughtProbability (climate (advanceYear ext s))
        \<and> \<bar>droughtProbability (climate (advanceYear ext s))
             - droughtProbability (climate s) - 5 / 1000\<bar> \<le> 1 / 2 ^ 52)
   \<and> (0 \<le> heatwaveProbability (climate s) \<and> heatwaveProbability (climate s) \<le> 1 \<longrightarrow>
        heatwaveProbability (climate s) < heatwaveProbability (climate (advanceYear ext s))
        \<and> \<bar>heatwaveProbability (climate (advanceYear ext s))
             - heatwaveProbability (climate s) - 5 / 1000\<bar> \<le> 1 / 2 ^ 52)"
  unfolding advanceYear_probabilities
  using drift_of_a_probability [of "droughtProbability (climate s)"]
        drift_of_a_probability [of "heatwaveProbability (climate s)"]
  by blast

text \<open>The first year change of the farm the constructor builds: 0.05 becomes 0.055 and
  0.08 becomes 0.085, the doubles nearest to the sums.\<close>

theorem advanceYear_climate_drift_witness:
  "(0 \<le> droughtProbability (climate demo_game) \<and> droughtProbability (climate demo_game) \<le> 1)
   \<and> (0 \<le> heatwaveProbability (climate demo_game)
        \<and> heatwaveProbability (climate demo_game) \<le> 1)
   \<and> droughtProbability (climate demo_game) = 3602879701896397 / 72057594037927936
   \<and> heatwaveProbability (climate demo_game) = 5764607523034235 / 72057594037927936
   \<and> droughtProbability (climate (advanceYear demo_ext demo_game))
       = 7926335344172073 / 144115188075855872
   \<and> heatwaveProbability (climate (advanceYear demo_ext demo_game))
       = 6124895493223875 / 72057594037927936
   \<and> floodProbability (climate (advanceYear demo_ext demo_game))
       = floodProbability (climate demo_game)
   \<and> (droughtProbability (climate demo_game)
        < droughtProbability (climate (advanceYear demo_ext demo_game))
      \<and> \<bar>droughtProbability (climate (advanceYear demo_ext demo_game))
           - droughtProbability (climate demo_game) - 5 / 1000\<bar> \<le> 1 / 2 ^ 52)
   \<and> (heatwaveProbability (climate demo_game)
        < heatwaveProbability (climate (advanceYear demo_ext demo_game))
      \<and> \<bar>heatwaveProbability (climate (advanceYear demo_ext demo_game))
           - heatwaveProbability (climate demo_game) - 5 / 1000\<bar> \<le> 1 / 2 ^ 52)"
proof -
  have "0 \<le> droughtProbability (climate demo_game) \<and> droughtProbability (climate demo_game) \<le> 1"
    "0 \<le> heatwaveProbability (climate demo_game) \<and> heatwaveProbability (climate demo_game) \<le> 1"
    unfolding demo_climate by simp_all
  with advanceYear_climate_drift [of demo_ext demo_game] demo_climate demo_year_changes
  show ?thesis
    by blast
qed

text \<open>
  The claim as first worded has \<open>floodProbability\<close> drift upward as well, and the other two
  grow by exactly 0.005. On the farm the constructor builds \<open>floodProbability\<close> is the same
  after the year change; and its second year change takes \<open>heatwaveProbability\<close> from 0.085
  to 0.09000000000000001, which is not 0.085 + 0.005 = 0.09: the difference of the two, as
  JavaScript computes it, is 0.0050000000000000044 and not the double 0.005.
\<close>

theorem drift_spares_floods_and_is_rounded:
  "\<not> floodProbability (climate demo_game)
       < floodProbability (climate (advanceYear demo_ext demo_game))
   \<and> heatwaveProbability (climate (advanceYear demo_ext demo_game))
       = 6124895493223875 / 72057594037927936
   \<and> heatwaveProbability (climate (advanceYear demo_ext (advanceYear demo_ext demo_game)))
       = 6485183463413515 / 72057594037927936
   \<and> heatwaveProbability (climate (advanceYear demo_ext (advanceYear demo_ext demo_game)))
       - heatwaveProbability (climate (advanceYear demo_ext demo_game)) \<noteq> 5 / 1000
   \<and> fsub (heatwaveProbability (climate (advanceYear demo_ext (advanceYear demo_ext demo_game))))
          (heatwaveProbability (climate (advanceYear demo_ext demo_game))) \<noteq> fl (5 / 1000)"
  unfolding demo_year_changes demo_drift fl_0005
  by (simp add: advanceYear_probabilities(3))

section \<open>The two inflation mechanisms\<close>

lemma addEvent_balance [simp]: "balance (addEvent s m a) = balance s"
  by (simp add: addEvent_def Let_def)

lemma refresh_cell_balance [simp]: "balance (refresh_cell s r c) = balance s"
  by (simp add: refresh_cell_def emit_def)




















section \<open>The pending queue between two resolutions\<close>

text \<open>Outside \<open>processPendingEvents\<close> nothing leaves \<open>pendingEvents\<close>.\<close>

lemma emit_pending [simp]: "pendingEvents (emit s c) = pendingEvents s"
  by (simp add: emit_def)

lemma random_pending [simp]: "pendingEvents (snd (random ext s)) = pendingEvents s"
  by (simp add: random_def case_prod_beta)

lemma addEvent_pending [simp]: "pendingEvents (addEvent s m a) = pendingEvents s"
  by (simp add: addEvent_def Let_def)

lemma payDailyOverhead_pending [simp]: "pendingEvents (payDailyOverhead s) = pendingEvents s"
  by (simp add: payDailyOverhead_def Let_def)

lemma announce_ready_pending [simp]: "pendingEvents (announce_ready s rc) = pendingEvents s"
  by (simp add: announce_ready_def split: prod.splits)

lemma updateFarm_pending [simp]: "pendingEvents (updateFarm ext s) = pendingEvents s"
  by (simp add: updateFarm_def Let_def case_prod_beta foldl_keeps)

lemma fluctuate_crop_pending [simp]: "pendingEvents (fluctuate_crop ext s c) = pendingEvents s"
  by (simp add: fluctuate_crop_def Let_def case_prod_beta split: option.splits)

lemma fluctuateMarketPrices_pending [simp]:
  "pendingEvents (fluctuateMarketPrices ext s) = pendingEvents s"
  by (simp add: fluctuateMarketPrices_def foldl_keeps)

lemma water_recovery_pending [simp]:
  "pendingEvents (snd (water_recovery ext s b w)) = pendingEvents s"
  by (simp add: water_recovery_def Let_def case_prod_beta)

lemma applyAnnualInflation_pending [simp]:
  "pendingEvents (applyAnnualInflation s) = pendingEvents s"
  by (simp add: applyAnnualInflation_def)

lemma distributeSubsidy_pending [simp]:
  "pendingEvents (distributeSubsidy ext s sc) = pendingEvents s"
  by (simp add: distributeSubsidy_def Let_def case_prod_beta)

lemma update_farmHealth_pending [simp]:
  "pendingEvents (update_farmHealth ext s) = pendingEvents s"
  by (simp add: update_farmHealth_def Let_def case_prod_beta)

lemma runTestUpdate_pending [simp]: "pendingEvents (runTestUpdate s) = pendingEvents s"
  by (simp add: runTestUpdate_def terminateTest_def Let_def emit_def)

text \<open>The methods that enqueue only append.\<close>

lemma seed_event_pending:
  "pendingEvents (seed_event ext s p f) =
   pendingEvents s @
   (if fst (random ext s) < p
    then [fst (f (snd (random ext s)) (world (snd (random ext s))))] else [])"
  by (simp add: seed_event_def Let_def case_prod_beta)

lemma seed_event_grows [simp]:
  "prefix xs (pendingEvents s) \<Longrightarrow> prefix xs (pendingEvents (seed_event ext s p f))"
  by (simp add: seed_event_pending prefix_prefix)

lemma seasonal_events_grows [simp]:
  "prefix xs (pendingEvents s) \<Longrightarrow> prefix xs (pendingEvents (seasonal_events ext s))"
  by (cases "season s") (simp_all add: seasonal_events_def Let_def case_prod_beta)

lemma advanceSeason_grows [simp]:
  "prefix xs (pendingEvents s) \<Longrightarrow> prefix xs (pendingEvents (advanceSeason ext s))"
  by (simp add: advanceSeason_def Let_def)

lemma decade_milestone_grows [simp]:
  "prefix xs (pendingEvents s) \<Longrightarrow> prefix xs (pendingEvents (decade_milestone ext s))"
  by (simp add: decade_milestone_def Let_def case_prod_beta prefix_prefix)

lemma advanceYear_grows [simp]:
  "prefix xs (pendingEvents s) \<Longrightarrow> prefix xs (pendingEvents (advanceYear ext s))"
  by (simp add: advanceYear_def Let_def case_prod_beta)

lemma handle_weather_grows [simp]:
  "prefix xs (pendingEvents s) \<Longrightarrow> prefix xs (pendingEvents (handle_weather s k m r v))"
  by (simp add: handle_weather_def Let_def prefix_prefix)

lemma handle_event_grows [simp]:
  "prefix xs (pendingEvents s) \<Longrightarrow> prefix xs (pendingEvents (handle_event ext s e))"
  by (simp add: handle_event_def Let_def case_prod_beta)

lemma handle_events_grow [simp]:
  "prefix xs (pendingEvents s) \<Longrightarrow> prefix xs (pendingEvents (foldl (handle_event ext) s es))"
  by (induction es arbitrary: s) simp_all

lemma random_event_grows [simp]:
  "prefix xs (pendingEvents s) \<Longrightarrow> prefix xs (pendingEvents (random_event ext s))"
  by (simp add: random_event_def Let_def case_prod_beta prefix_prefix split: option.splits)

lemma before_events_grows [simp]:
  "prefix xs (pendingEvents s) \<Longrightarrow> prefix xs (pendingEvents (before_events ext s))"
  by (simp add: before_events_def Let_def check_year_def check_season_def advance_day_def)

section \<open>Resolving the pending events\<close>

lemma handle_events_day [simp]: "day (foldl (handle_event ext) s es) = day s"
  by (simp add: foldl_keeps)

lemma processPendingEvents_pending:
  "pendingEvents (processPendingEvents ext s) =
   filter (\<lambda>event. ev_day event \<noteq> day s)
     (pendingEvents (foldl (handle_event ext) s (activeEvents s)))"
  by (simp add: processPendingEvents_def Let_def)

lemma processPendingEvents_none_today:
  "e \<in> set (pendingEvents (processPendingEvents ext s)) \<Longrightarrow> ev_day e \<noteq> day s"
  by (simp add: processPendingEvents_pending)

lemma handle_event_unrecognized:
  "ev_type e \<notin> set recognized_types \<Longrightarrow> handle_event ext s e = s"
  by (simp add: handle_event_def recognized_types_def)

lemma handle_events_unrecognized:
  "\<forall>e \<in> set es. ev_type e \<notin> set recognized_types \<Longrightarrow> foldl (handle_event ext) s es = s"
  by (induction es arbitrary: s) (simp_all add: handle_event_unrecognized)

lemma processPendingEvents_unrecognized:
  "\<forall>e \<in> set (activeEvents s). ev_type e \<notin> set recognized_types \<Longrightarrow>
   processPendingEvents ext s =
   s\<lparr>pendingEvents := filter (\<lambda>event. ev_day event \<noteq> day s) (pendingEvents s)\<rparr>"
  by (simp add: processPendingEvents_def Let_def handle_events_unrecognized)

lemma handle_events_skip_unrecognized:
  "foldl (handle_event ext) s es =
   foldl (handle_event ext) s (filter (\<lambda>e. ev_type e \<in> set recognized_types) es)"
  by (induction es arbitrary: s) (simp_all add: handle_event_unrecognized)

text \<open>The weather handlers.\<close>

lemma handle_weather_skipped: "skipped r \<Longrightarrow> handle_weather s k m r v = s"
  by (simp add: handle_weather_def)

lemma handle_weather_continues:
  "\<not> skipped r \<Longrightarrow> continueEvent r \<Longrightarrow>
   pendingEvents (handle_weather s k m r v) =
   pendingEvents s @
   [\<lparr>ev_type = k, ev_day = day s + 1, duration = nextDuration r, severity = v,
     ev_message = [], ev_isAlert = False, ev_payload = None\<rparr>]"
  by (simp add: handle_weather_def Let_def)

lemma handle_event_weather_skipped:
  assumes "ev_type e = ''drought'' \<or> ev_type e = ''heatwave''"
    and "skipped (weather_outcome ext s e)"
  shows "events (handle_event ext s e) = events s"
    and "calls (handle_event ext s e) = calls s"
    and "pendingEvents (handle_event ext s e) = pendingEvents s"
    and "waterReserve (handle_event ext s e) = waterReserve s"
  using assms
  by (auto simp: handle_event_def weather_outcome_def Let_def case_prod_beta
        handle_weather_skipped)

lemma handle_event_weather_continues:
  assumes "ev_type e = ''drought'' \<or> ev_type e = ''heatwave''"
    and "\<not> skipped (weather_outcome ext s e)"
    and "continueEvent (weather_outcome ext s e)"
  shows "continuation (ev_type e) (day s) (weather_outcome ext s e)
           \<in> set (pendingEvents (handle_event ext s e))"
  using assms
  by (auto simp: handle_event_def weather_outcome_def Let_def case_prod_beta
        handle_weather_continues continuation_def)

lemma handle_events_keep:
  "x \<in> set (pendingEvents s) \<Longrightarrow> x \<in> set (pendingEvents (foldl (handle_event ext) s es))"
  using handle_events_grow [of "pendingEvents s" s ext es] set_mono_prefix by fastforce

lemma processPendingEvents_keeps:
  "x \<in> set (pendingEvents s) \<Longrightarrow> ev_day x \<noteq> day s \<Longrightarrow>
   x \<in> set (pendingEvents (processPendingEvents ext s))"
  by (simp add: processPendingEvents_pending handle_events_keep)

lemma processPendingEvents_continuation:
  assumes act: "activeEvents s = es1 @ e # es2"
    and kind: "ev_type e = ''drought'' \<or> ev_type e = ''heatwave''"
    and go: "\<not> skipped (weather_outcome ext (foldl (handle_event ext) s es1) e)"
            "continueEvent (weather_outcome ext (foldl (handle_event ext) s es1) e)"
  shows "continuation (ev_type e) (day s)
           (weather_outcome ext (foldl (handle_event ext) s es1) e)
         \<in> set (pendingEvents (processPendingEvents ext s))"
proof -
  let ?s1 = "foldl (handle_event ext) s es1"
  let ?c = "continuation (ev_type e) (day s) (weather_outcome ext ?s1 e)"
  have "?c \<in> set (pendingEvents (handle_event ext ?s1 e))"
    using handle_event_weather_continues [OF kind go] by simp
  moreover have "foldl (handle_event ext) s (activeEvents s) =
        foldl (handle_event ext) (handle_event ext ?s1 e) es2"
    by (simp add: act)
  ultimately have "?c \<in> set (pendingEvents (foldl (handle_event ext) s (activeEvents s)))"
    by (simp add: handle_events_keep)
  moreover have "ev_day ?c \<noteq> day s"
    by (simp add: continuation_def)
  ultimately show ?thesis
    by (simp add: processPendingEvents_pending)
qed

text \<open>
  Claim C6. After \<open>processPendingEvents\<close> has run on day \<open>d\<close>, no pending event with trigger
  day \<open>d\<close> is left, whatever its type. Handling an event whose type is none of the seven
  recognized ones returns the state as it was: nothing is mutated and nothing is logged.
  When every event due today is of that kind, the whole resolution only removes them; in
  general the dispatch of today's events is the dispatch of the recognized ones among them.
\<close>

theorem processPendingEvents_clears_today:
  "(\<forall>x \<in> set (pendingEvents (processPendingEvents ext s)). ev_day x \<noteq> day s)
   \<and> (ev_type e \<notin> set recognized_types \<longrightarrow> handle_event ext t e = t)
   \<and> ((\<forall>x \<in> set (activeEvents s). ev_type x \<notin> set recognized_types) \<longrightarrow>
        processPendingEvents ext s =
        s\<lparr>pendingEvents := filter (\<lambda>event. ev_day event \<noteq> day s) (pendingEvents s)\<rparr>)
   \<and> foldl (handle_event ext) s (activeEvents s) =
       foldl (handle_event ext) s
         (filter (\<lambda>event. ev_type event \<in> set recognized_types) (activeEvents s))"
  using processPendingEvents_none_today [of _ ext s] handle_event_unrecognized [of e ext t]
    processPendingEvents_unrecognized [of s ext]
    handle_events_skip_unrecognized [of ext s "activeEvents s"]
  by blast

theorem processPendingEvents_clears_today_witness:
  "handle_event demo_ext demo_game (demo_event ''meteor'' 1) = demo_game
   \<and> processPendingEvents demo_ext unknown_event_game
     = demo_game\<lparr>pendingEvents := [demo_event ''rain'' 5]\<rparr>"
proof -
  have u: "ev_type (demo_event ''meteor'' 1) \<notin> set recognized_types"
    by (simp add: demo_event_def recognized_types_def)
  have a: "\<forall>x \<in> set (activeEvents unknown_event_game). ev_type x \<notin> set recognized_types"
    by (simp add: activeEvents_def unknown_event_game_def demo_game_def demo_event_def
          recognized_types_def)
  have "handle_event demo_ext demo_game (demo_event ''meteor'' 1) = demo_game"
    using processPendingEvents_clears_today
      [where e = "demo_event ''meteor'' 1" and t = demo_game and ext = demo_ext] u
    by blast
  moreover have "processPendingEvents demo_ext unknown_event_game =
      unknown_event_game\<lparr>pendingEvents :=
        filter (\<lambda>event. ev_day event \<noteq> day unknown_event_game)
          (pendingEvents unknown_event_game)\<rparr>"
    using processPendingEvents_clears_today [where s = unknown_event_game and ext = demo_ext] a
    by blast
  ultimately show ?thesis
    by (simp add: unknown_event_game_def demo_game_def demo_event_def)
qed

lemma demo_weather_outcome:
  "ev_type e = ''drought'' \<or> ev_type e = ''heatwave'' \<Longrightarrow>
   weather_outcome demo_ext s e = demo_weather e (waterReserve s) (researchedTechs s)"
  by (auto simp: weather_outcome_def demo_ext_def)

text \<open>
  Claim C10. When the drought or heatwave handler answers \<open>skipped\<close> for an event due
  today, handling it logs nothing (neither the effect message nor an "ended" message),
  enqueues no continuation and leaves the water reserve alone; the event itself is gone
  after the resolution, so the chain ends there.
\<close>

theorem skipped_weather_is_silent:
  assumes "activeEvents s = es1 @ e # es2"
    and "ev_type e = ''drought'' \<or> ev_type e = ''heatwave''"
    and "skipped (weather_outcome ext (foldl (handle_event ext) s es1) e)"
  shows "events (handle_event ext (foldl (handle_event ext) s es1) e)
           = events (foldl (handle_event ext) s es1)
         \<and> calls (handle_event ext (foldl (handle_event ext) s es1) e)
           = calls (foldl (handle_event ext) s es1)
         \<and> pendingEvents (handle_event ext (foldl (handle_event ext) s es1) e)
           = pendingEvents (foldl (handle_event ext) s es1)
         \<and> waterReserve (handle_event ext (foldl (handle_event ext) s es1) e)
           = waterReserve (foldl (handle_event ext) s es1)
         \<and> e \<notin> set (pendingEvents (processPendingEvents ext s))"
proof -
  have "e \<in> set (activeEvents s)"
    using assms(1) by simp
  then have "ev_day e = day s"
    by (simp add: activeEvents_def)
  then have "e \<notin> set (pendingEvents (processPendingEvents ext s))"
    using processPendingEvents_none_today [of e ext s] by blast
  then show ?thesis
    using handle_event_weather_skipped [OF assms(2,3)] by simp
qed

theorem skipped_weather_is_silent_witness:
  "activeEvents skipped_drought_game = [] @ demo_event ''drought'' 200 # []
   \<and> skipped (weather_outcome demo_ext (foldl (handle_event demo_ext) skipped_drought_game [])
        (demo_event ''drought'' 200))
   \<and> events (handle_event demo_ext skipped_drought_game (demo_event ''drought'' 200)) = []
   \<and> calls (handle_event demo_ext skipped_drought_game (demo_event ''drought'' 200)) = []
   \<and> pendingEvents (handle_event demo_ext skipped_drought_game (demo_event ''drought'' 200))
     = [demo_event ''drought'' 200]
   \<and> demo_event ''drought'' 200
     \<notin> set (pendingEvents (processPendingEvents demo_ext skipped_drought_game))"
proof -
  have a: "activeEvents skipped_drought_game = [] @ demo_event ''drought'' 200 # []"
    by (simp add: activeEvents_def skipped_drought_game_def demo_game_def demo_event_def)
  have k: "ev_type (demo_event ''drought'' 200) = ''drought''
           \<or> ev_type (demo_event ''drought'' 200) = ''heatwave''"
    by (simp add: demo_event_def)
  have sk: "skipped (weather_outcome demo_ext (foldl (handle_event demo_ext) skipped_drought_game [])
        (demo_event ''drought'' 200))"
    by (simp add: demo_weather_outcome [OF k] demo_weather_def skipped_drought_game_def)
  show ?thesis
    using skipped_weather_is_silent [OF a k sk] a sk
    by (simp add: skipped_drought_game_def demo_game_def)
qed

section \<open>A continuation scheduled for day 361\<close>

text \<open>The day is reset before the events are resolved, so a resolution never sees a day
  beyond 360.\<close>

lemma rest_of_tick_keeps:
  "x \<in> set (pendingEvents s) \<Longrightarrow>
   x \<in> set (pendingEvents (random_event ext (update_farmHealth ext s)))"
  using random_event_grows [of "pendingEvents s" "update_farmHealth ext s" ext] set_mono_prefix
  by fastforce

lemma before_events_keeps:
  "x \<in> set (pendingEvents s) \<Longrightarrow> x \<in> set (pendingEvents (before_events ext s))"
  using before_events_grows [of "pendingEvents s" s ext] set_mono_prefix by fastforce

lemma update_keeps:
  assumes "x \<in> set (pendingEvents s)" and "ev_day x \<noteq> day (before_events ext s)"
  shows "x \<in> set (pendingEvents (update ext s))"
proof -
  have "x \<in> set (pendingEvents (processPendingEvents ext (before_events ext s)))"
    using assms by (simp add: processPendingEvents_keeps before_events_keeps)
  then have "x \<in> set (pendingEvents (random_event ext (update_farmHealth ext
               (processPendingEvents ext (before_events ext s)))))"
    by (rule rest_of_tick_keeps)
  then show ?thesis
    by (simp add: update_def Let_def)
qed

lemma update_pending_tail:
  "pendingEvents (update ext s) =
   pendingEvents (random_event ext (update_farmHealth ext
     (processPendingEvents ext (before_events ext s))))"
  by (simp add: update_def Let_def)

lemma day_within_year:
  "day s \<le> 360 \<Longrightarrow> day (before_events ext s) \<le> 360"
  "day s \<le> 360 \<Longrightarrow> day (update ext s) \<le> 360"
  by (simp_all add: before_events_clock update_clock_all)

lemma refresh_cell_queue [simp]:
  "pendingEvents (refresh_cell s r c) = pendingEvents s" "day (refresh_cell s r c) = day s"
  by (simp_all add: refresh_cell_def)

lemma applyTechnologyEffects_queue [simp]:
  "pendingEvents (applyTechnologyEffects s t) = pendingEvents s"
  "day (applyTechnologyEffects s t) = day s"
  by (simp_all add: applyTechnologyEffects_def Let_def split: option.splits)

lemma plantCrop_queue:
  "pendingEvents (snd (plantCrop ext s row col cropId)) = pendingEvents s"
  "day (snd (plantCrop ext s row col cropId)) = day s"
  by (simp_all add: plantCrop_def Let_def case_prod_beta split: lookup.splits option.splits)

lemma irrigateCell_queue:
  "pendingEvents (snd (irrigateCell ext s row col)) = pendingEvents s"
  "day (snd (irrigateCell ext s row col)) = day s"
  by (simp_all add: irrigateCell_def Let_def case_prod_beta split: lookup.splits)

lemma fertilizeCell_queue:
  "pendingEvents (snd (fertilizeCell ext s row col)) = pendingEvents s"
  "day (snd (fertilizeCell ext s row col)) = day s"
  by (simp_all add: fertilizeCell_def Let_def case_prod_beta split: lookup.splits)

lemma harvestCell_queue:
  "pendingEvents (snd (harvestCell ext s row col)) = pendingEvents s"
  "day (snd (harvestCell ext s row col)) = day s"
  by (simp_all add: harvestCell_def Let_def case_prod_beta split: lookup.splits)

lemma researchTechnology_queue:
  "pendingEvents (snd (researchTechnology ext s techId)) = pendingEvents s"
  "day (snd (researchTechnology ext s techId)) = day s"
  by (simp_all add: researchTechnology_def Let_def split: option.splits)

lemma do_step_keeps_day_361:
  assumes "day s \<le> 360" and "x \<in> set (pendingEvents s)" and "360 < ev_day x"
  shows "day (do_step ext s st) \<le> 360 \<and> x \<in> set (pendingEvents (do_step ext s st))"
proof (cases st)
  case Tick
  have "day (before_events ext s) \<le> 360"
    using assms(1) by (rule day_within_year)
  then have "ev_day x \<noteq> day (before_events ext s)"
    using assms(3) by simp
  then have "x \<in> set (pendingEvents (update ext s))"
    using assms(2) by (simp add: update_keeps)
  then show ?thesis
    using Tick assms(1) by (simp add: day_within_year)
qed (use assms in \<open>simp_all add: plantCrop_queue irrigateCell_queue fertilizeCell_queue
      harvestCell_queue researchTechnology_queue\<close>)

lemma play_keeps_day_361:
  assumes "day s \<le> 360" and "x \<in> set (pendingEvents s)" and "360 < ev_day x"
  shows "day (play ext s steps) \<le> 360 \<and> x \<in> set (pendingEvents (play ext s steps))"
  using assms unfolding play_def
proof (induction steps arbitrary: s)
  case Nil
  then show ?case by simp
next
  case (Cons st steps)
  have "day (do_step ext s st) \<le> 360 \<and> x \<in> set (pendingEvents (do_step ext s st))"
    using Cons.prems by (rule do_step_keeps_day_361)
  then show ?case
    using Cons.IH Cons.prems(3) by simp
qed

lemma never_active_after_360:
  assumes "day s \<le> 360" and "360 < ev_day x"
  shows "x \<notin> set (activeEvents (before_events ext s))"
proof -
  have "day (before_events ext s) \<le> 360"
    using assms(1) by (rule day_within_year)
  then show ?thesis
    using assms(2) by (auto simp: activeEvents_def)
qed

lemma stuck_continuation:
  assumes today: "day (before_events ext s) = 360"
    and act: "activeEvents (before_events ext s) = es1 @ e # es2"
    and kind: "ev_type e = ''drought'' \<or> ev_type e = ''heatwave''"
    and go: "\<not> skipped (weather_outcome ext (foldl (handle_event ext) (before_events ext s) es1) e)"
        "continueEvent (weather_outcome ext (foldl (handle_event ext) (before_events ext s) es1) e)"
  defines "c \<equiv> continuation (ev_type e) 360
      (weather_outcome ext (foldl (handle_event ext) (before_events ext s) es1) e)"
  shows "ev_day c = 361"
    and "c \<in> set (pendingEvents (play ext (update ext s) steps))"
    and "c \<notin> set (activeEvents (before_events ext (play ext (update ext s) steps)))"
proof -
  show d: "ev_day c = 361"
    by (simp add: c_def continuation_def)
  have "c \<in> set (pendingEvents (processPendingEvents ext (before_events ext s)))"
    using processPendingEvents_continuation [OF act kind go] by (simp add: c_def today)
  then have in1: "c \<in> set (pendingEvents (update ext s))"
    unfolding update_pending_tail by (rule rest_of_tick_keeps)
  have day1: "day (update ext s) \<le> 360"
    using today by (simp add: update_def Let_def)
  have later: "day (play ext (update ext s) steps) \<le> 360
               \<and> c \<in> set (pendingEvents (play ext (update ext s) steps))"
    using day1 in1 d by (intro play_keeps_day_361) simp_all
  then show "c \<in> set (pendingEvents (play ext (update ext s) steps))"
    by simp
  show "c \<notin> set (activeEvents (before_events ext (play ext (update ext s) steps)))"
    using later d by (intro never_active_after_360) simp_all
qed

text \<open>
  Claim C9. When a drought or heatwave resolved on day 360 is not skipped and signals
  \<open>continueEvent\<close>, its continuation is enqueued with trigger day 361. After that tick,
  whatever ticks and player actions follow, the day is back in 1..360 when a tick
  resolves its events, so the continuation is never among the active events and never
  removed: it stays in \<open>pendingEvents\<close> for good, and the handler that would log the end of
  the chain never runs for it.
\<close>

theorem continuation_for_day_361_is_stuck:
  assumes "day (before_events ext s) = 360"
    and "activeEvents (before_events ext s) = es1 @ e # es2"
    and "ev_type e = ''drought'' \<or> ev_type e = ''heatwave''"
    and "\<not> skipped (weather_outcome ext (foldl (handle_event ext) (before_events ext s) es1) e)"
    and "continueEvent (weather_outcome ext (foldl (handle_event ext) (before_events ext s) es1) e)"
  shows "let c = continuation (ev_type e) 360
                   (weather_outcome ext (foldl (handle_event ext) (before_events ext s) es1) e)
         in ev_day c = 361
            \<and> c \<in> set (pendingEvents (processPendingEvents ext (before_events ext s)))
            \<and> (\<forall>steps. c \<in> set (pendingEvents (play ext (update ext s) steps))
                    \<and> c \<notin> set (activeEvents
                                (before_events ext (play ext (update ext s) steps))))"
proof -
  have "continuation (ev_type e) 360
          (weather_outcome ext (foldl (handle_event ext) (before_events ext s) es1) e)
        \<in> set (pendingEvents (processPendingEvents ext (before_events ext s)))"
    using processPendingEvents_continuation [OF assms(2-5)] assms(1) by simp
  then show ?thesis
    using stuck_continuation [OF assms] by (simp add: Let_def)
qed

lemma emit_techs [simp]: "researchedTechs (emit s c) = researchedTechs s"
  by (simp add: emit_def)

lemma addEvent_techs [simp]: "researchedTechs (addEvent s m a) = researchedTechs s"
  by (simp add: addEvent_def Let_def)

lemma payDailyOverhead_techs [simp]: "researchedTechs (payDailyOverhead s) = researchedTechs s"
  by (simp add: payDailyOverhead_def Let_def)

lemma announce_ready_techs [simp]: "researchedTechs (announce_ready s rc) = researchedTechs s"
  by (simp add: announce_ready_def split: prod.splits)

lemma updateFarm_techs [simp]: "researchedTechs (updateFarm ext s) = researchedTechs s"
  by (simp add: updateFarm_def Let_def case_prod_beta foldl_keeps)

lemma before_events_quiet:
  "seasonDay s + 1 \<le> 90 \<Longrightarrow> day s + 1 \<le> 360 \<Longrightarrow>
   before_events ext s = updateFarm ext (payDailyOverhead (advance_day s))"
  by (simp add: before_events_def Let_def check_season_def check_year_def advance_day_def)

theorem continuation_for_day_361_is_stuck_witness:
  "day (before_events demo_ext last_day_game) = 360
   \<and> activeEvents (before_events demo_ext last_day_game) = [] @ demo_event ''drought'' 360 # []
   \<and> \<not> skipped (weather_outcome demo_ext
            (foldl (handle_event demo_ext) (before_events demo_ext last_day_game) [])
            (demo_event ''drought'' 360))
   \<and> continueEvent (weather_outcome demo_ext
            (foldl (handle_event demo_ext) (before_events demo_ext last_day_game) [])
            (demo_event ''drought'' 360))
   \<and> (\<forall>steps. continuation ''drought'' 360
             (weather_outcome demo_ext
               (foldl (handle_event demo_ext) (before_events demo_ext last_day_game) [])
               (demo_event ''drought'' 360))
             \<in> set (pendingEvents (play demo_ext (update demo_ext last_day_game) steps))
           \<and> continuation ''drought'' 360
             (weather_outcome demo_ext
               (foldl (handle_event demo_ext) (before_events demo_ext last_day_game) [])
               (demo_event ''drought'' 360))
             \<notin> set (activeEvents
                      (before_events demo_ext
                         (play demo_ext (update demo_ext last_day_game) steps))))"
proof -
  have q: "before_events demo_ext last_day_game
           = updateFarm demo_ext (payDailyOverhead (advance_day last_day_game))"
    by (rule before_events_quiet) (simp_all add: last_day_game_def demo_game_def)
  have d: "day (before_events demo_ext last_day_game) = 360"
    unfolding q by (simp add: advance_day_def last_day_game_def demo_game_def)
  have a: "activeEvents (before_events demo_ext last_day_game)
           = [] @ demo_event ''drought'' 360 # []"
    unfolding q
    by (simp add: activeEvents_def advance_day_def last_day_game_def demo_game_def
          demo_event_def)
  have k: "ev_type (demo_event ''drought'' 360) = ''drought''
           \<or> ev_type (demo_event ''drought'' 360) = ''heatwave''"
    by (simp add: demo_event_def)
  have t: "researchedTechs (before_events demo_ext last_day_game) = []"
    unfolding q by (simp add: advance_day_def last_day_game_def demo_game_def)
  have w: "weather_outcome demo_ext
             (foldl (handle_event demo_ext) (before_events demo_ext last_day_game) [])
             (demo_event ''drought'' 360)
           = demo_weather (demo_event ''drought'' 360)
               (waterReserve (before_events demo_ext last_day_game)) []"
    by (simp add: demo_weather_outcome [OF k] t)
  have ns: "\<not> skipped (weather_outcome demo_ext
            (foldl (handle_event demo_ext) (before_events demo_ext last_day_game) [])
            (demo_event ''drought'' 360))"
    unfolding w by (simp add: demo_weather_def)
  have ce: "continueEvent (weather_outcome demo_ext
            (foldl (handle_event demo_ext) (before_events demo_ext last_day_game) [])
            (demo_event ''drought'' 360))"
    unfolding w by (simp add: demo_weather_def demo_event_def)
  have e: "ev_type (demo_event ''drought'' 360) = ''drought''"
    by (simp add: demo_event_def)
  show ?thesis
    using continuation_for_day_361_is_stuck [OF d a k ns ce] d a ns ce
    unfolding Let_def e by blast
qed

section \<open>Seasonal seeding\<close>

lemma only_enqueued_start: "only_enqueued T (pendingEvents s) s"
  by (simp add: only_enqueued_def)

lemma seed_event_only:
  assumes "only_enqueued T base s" and "\<And>t w. ev_type (fst (f t w)) \<in> set T"
  shows "only_enqueued T base (seed_event ext s p f)"
proof -
  obtain new where new: "pendingEvents s = base @ new" "\<forall>e \<in> set new. ev_type e \<in> set T"
    using assms(1) by (auto simp: only_enqueued_def)
  let ?more = "(if fst (random ext s) < p
                then [fst (f (snd (random ext s)) (world (snd (random ext s))))] else [])"
  have "pendingEvents (seed_event ext s p f) = base @ (new @ ?more)"
    by (simp add: seed_event_pending new(1))
  moreover have "\<forall>e \<in> set (new @ ?more). ev_type e \<in> set T"
    using new(2) assms(2) by auto
  ultimately show ?thesis
    unfolding only_enqueued_def by blast
qed

lemma seasonal_events_only:
  assumes "schedulers_typed ext" and "only_enqueued (seeded_types (season s)) base s"
  shows "only_enqueued (seeded_types (season s)) base (seasonal_events ext s)"
proof (cases "season s")
  case Spring
  have "only_enqueued [''rain''] base (seed_event ext s (4 / 10) (\<lambda>t. scheduleRain ext (day t)))"
    using assms Spring by (intro seed_event_only) (simp_all add: schedulers_typed_def)
  then show ?thesis
    using Spring by (simp add: seasonal_events_def Let_def case_prod_beta only_enqueued_def)
next
  case Summer
  have "only_enqueued [''drought'', ''heatwave''] base
          (seed_event ext
            (seed_event ext s (3 / 10)
               (\<lambda>t. scheduleDrought ext (day t) (droughtProbability (climate t))))
            (4 / 10) (\<lambda>t. scheduleHeatwave ext (day t)))"
    using assms Summer by (intro seed_event_only) (simp_all add: schedulers_typed_def)
  then show ?thesis
    using Summer by (simp add: seasonal_events_def Let_def)
next
  case Fall
  have "only_enqueued [''rain'', ''heatwave''] base
          (seed_event ext
            (seed_event ext s (3 / 10) (\<lambda>t. scheduleRain ext (day t)))
            (2 / 10) (\<lambda>t. scheduleHeatwave ext (day t)))"
    using assms Fall by (intro seed_event_only) (simp_all add: schedulers_typed_def)
  then show ?thesis
    using Fall by (simp add: seasonal_events_def Let_def case_prod_beta only_enqueued_def)
next
  case Winter
  have "only_enqueued [''frost''] base (seed_event ext s (3 / 10) (\<lambda>t. scheduleFrost ext (day t)))"
    using assms Winter by (intro seed_event_only) (simp_all add: schedulers_typed_def)
  then show ?thesis
    using Winter by (simp add: seasonal_events_def Let_def case_prod_beta only_enqueued_def)
qed

lemma advanceSeason_only:
  assumes "schedulers_typed ext"
  shows "only_enqueued (seeded_types (season (advanceSeason ext s))) (pendingEvents s)
           (advanceSeason ext s)"
proof -
  let ?s3 = "fluctuateMarketPrices ext
     (addEvent (s\<lparr>season := seasons ! nat ((indexOf seasons (season s) + 1) mod 4)\<rparr>)
        [S ''Season changed to '',
         S (season_name (seasons ! nat ((indexOf seasons (season s) + 1) mod 4)))] False)"
  have "only_enqueued (seeded_types (season ?s3)) (pendingEvents ?s3) ?s3"
    by (rule only_enqueued_start)
  then have "only_enqueued (seeded_types (season ?s3)) (pendingEvents s) ?s3"
    by simp
  then have "only_enqueued (seeded_types (season ?s3)) (pendingEvents s) (seasonal_events ext ?s3)"
    using assms by (intro seasonal_events_only)
  then show ?thesis
    by (simp add: advanceSeason_def Let_def only_enqueued_def)
qed

text \<open>
  Claim C7, as the code has it. With collaborators that build events of the type they are
  named after, the seeding of a season change appends to the queue only: drought and
  heatwave when the new season is Summer, frost when it is Winter, rain when it is Spring,
  and rain and heatwave when it is Fall.
\<close>

theorem seasonal_seeding_types:
  assumes "schedulers_typed ext"
  shows "\<exists>seeded. pendingEvents (advanceSeason ext s) = pendingEvents s @ seeded
           \<and> (\<forall>e \<in> set seeded.
                 ev_type e \<in> set (seeded_types (season (advanceSeason ext s))))"
  using advanceSeason_only [OF assms, of s] by (simp add: only_enqueued_def)

lemma demo_schedulers_typed: "schedulers_typed demo_ext"
  by (simp add: schedulers_typed_def demo_ext_def demo_event_def)

lemma demo_random: "random demo_ext s = (0, s\<lparr>world := Suc (world s)\<rparr>)"
  by (simp add: random_def demo_ext_def)

lemma advanceSeason_pending:
  "pendingEvents (advanceSeason ext s) =
   pendingEvents (seasonal_events ext (fluctuateMarketPrices ext
     (addEvent (s\<lparr>season := next_season (season s)\<rparr>)
        [S ''Season changed to '', S (season_name (next_season (season s)))] False)))"
  by (cases "season s") (simp_all add: advanceSeason_def Let_def seasons_def)

lemma fall_seeding:
  "season s = Fall \<Longrightarrow>
   pendingEvents (seasonal_events demo_ext s) =
   pendingEvents s @ [demo_event ''rain'' (day s + 10), demo_event ''heatwave'' (day s + 10)]"
  by (simp add: seasonal_events_def Let_def case_prod_beta seed_event_pending demo_random)
     (simp add: demo_ext_def)

lemma summer_to_fall:
  "season (advanceSeason demo_ext summer_game) = Fall"
  "map ev_type (pendingEvents (advanceSeason demo_ext summer_game)) = [''rain'', ''heatwave'']"
proof -
  show "season (advanceSeason demo_ext summer_game) = Fall"
    by (simp add: advanceSeason_season summer_game_def)
  let ?s3 = "fluctuateMarketPrices demo_ext
     (addEvent (summer_game\<lparr>season := next_season (season summer_game)\<rparr>)
        [S ''Season changed to '', S (season_name (next_season (season summer_game)))] False)"
  have "season ?s3 = Fall" "pendingEvents ?s3 = []"
    by (simp_all add: summer_game_def demo_game_def)
  then have "pendingEvents (seasonal_events demo_ext ?s3) =
             [demo_event ''rain'' (day ?s3 + 10), demo_event ''heatwave'' (day ?s3 + 10)]"
    by (simp add: fall_seeding)
  then show "map ev_type (pendingEvents (advanceSeason demo_ext summer_game))
             = [''rain'', ''heatwave'']"
    by (simp add: advanceSeason_pending demo_event_def)
qed

theorem seasonal_seeding_types_witness:
  "schedulers_typed demo_ext
   \<and> season (advanceSeason demo_ext summer_game) = Fall
   \<and> (\<exists>seeded. pendingEvents (advanceSeason demo_ext summer_game)
                  = pendingEvents summer_game @ seeded
               \<and> list_all (\<lambda>e. ev_type e \<in> set (seeded_types Fall)) seeded)"
  using seasonal_seeding_types [OF demo_schedulers_typed, of summer_game]
    demo_schedulers_typed summer_to_fall(1)
  by (simp add: list_all_iff)

text \<open>The claim as first worded allows only rain in Fall; the change from Summer to Fall
  on the concrete farm enqueues a heatwave after the rain.\<close>

theorem fall_seeds_a_heatwave:
  "season (advanceSeason demo_ext summer_game) = Fall
   \<and> pendingEvents summer_game = []
   \<and> map ev_type (pendingEvents (advanceSeason demo_ext summer_game)) = [''rain'', ''heatwave'']"
  using summer_to_fall by (simp add: summer_game_def demo_game_def)

section \<open>Rejected actions\<close>

lemma addEvent_events:
  "events (addEvent s m a) =
   \<lparr>date = [S (season_name (season s)), S '', Year '', N (of_int (year s))],
    message = m, isAlert = a\<rparr>
   # (if 20 \<le> length (events s) then butlast (events s) else events s)"
proof (cases "20 \<le> length (events s)")
  case True
  then have "events s \<noteq> []" by auto
  with True show ?thesis
    by (simp add: addEvent_def Let_def)
next
  case False
  then show ?thesis
    by (simp add: addEvent_def Let_def)
qed

lemma addEvent_alert: "addEvent s m True = with_alert s m"
proof (cases "20 \<le> length (events s)")
  case True
  then have "events s \<noteq> []" by auto
  with True show ?thesis
    by (simp add: addEvent_def with_alert_def Let_def)
next
  case False
  then show ?thesis
    by (simp add: addEvent_def with_alert_def Let_def)
qed

lemma addEvent_rejects: "rejected_with_alert s m (Returned False, addEvent s m True)"
  by (simp add: rejected_with_alert_def addEvent_alert)

lemma with_alert_same: "same_simulation s (with_alert s m)"
  by (simp add: same_simulation_def with_alert_def)

lemma missing_row:
  assumes "grid_lookup (grid s) row col = NoRow"
  shows "plantCrop ext s row col cropId = (TypeError, s)"
    and "irrigateCell ext s row col = (TypeError, s)"
    and "fertilizeCell ext s row col = (TypeError, s)"
    and "harvestCell ext s row col = (TypeError, s)"
  using assms by (simp_all add: plantCrop_def irrigateCell_def fertilizeCell_def harvestCell_def)

lemma missing_cell:
  assumes "grid_lookup (grid s) row col = NoCell"
  shows "irrigateCell ext s row col = (TypeError, s)"
    and "fertilizeCell ext s row col = (TypeError, s)"
    and "harvestCell ext s row col = (TypeError, s)"
  using assms by (simp_all add: irrigateCell_def fertilizeCell_def harvestCell_def)

lemma plantCrop_silent:
  assumes "grid_lookup (grid s) row col \<noteq> NoRow"
    and "getCropById ext cropId = None
         \<or> (\<exists>c. getCropById ext cropId = Some c \<and> crop_id c = ''empty'')"
  shows "plantCrop ext s row col cropId = (Returned False, s)"
  using assms by (auto simp: plantCrop_def split: lookup.splits)

lemma plantCrop_cannot_afford:
  assumes "grid_lookup (grid s) row col \<noteq> NoRow"
    and "getCropById ext cropId = Some c" and "crop_id c \<noteq> ''empty''"
    and "balance s < of_int (plantingCost s c)"
  shows "rejected_with_alert s
           [S ''Cannot afford to plant '', S (crop_name c), S ''. Cost: $'',
            N (of_int (plantingCost s c))]
           (plantCrop ext s row col cropId)"
  using assms by (auto simp: plantCrop_def addEvent_rejects split: lookup.splits)

lemma irrigateCell_rejects:
  assumes "grid_lookup (grid s) row col = Cell c"
  shows "crop_id (crop c) = ''empty'' \<Longrightarrow>
         rejected_with_alert s [S ''Cannot irrigate an empty plot.''] (irrigateCell ext s row col)"
    and "crop_id (crop c) \<noteq> ''empty'' \<Longrightarrow> irrigated c \<Longrightarrow>
         rejected_with_alert s [S ''This plot is already irrigated.'']
           (irrigateCell ext s row col)"
    and "crop_id (crop c) \<noteq> ''empty'' \<Longrightarrow> \<not> irrigated c \<Longrightarrow>
         balance s < of_int (irrigationCost s) \<Longrightarrow>
         rejected_with_alert s
           [S ''Cannot afford irrigation. Cost: $'', N (of_int (irrigationCost s))]
           (irrigateCell ext s row col)"
  using assms by (simp_all add: irrigateCell_def addEvent_rejects)

lemma fertilizeCell_rejects:
  assumes "grid_lookup (grid s) row col = Cell c"
  shows "crop_id (crop c) = ''empty'' \<Longrightarrow>
         rejected_with_alert s [S ''Cannot fertilize an empty plot.'']
           (fertilizeCell ext s row col)"
    and "crop_id (crop c) \<noteq> ''empty'' \<Longrightarrow> fertilized c \<Longrightarrow>
         rejected_with_alert s [S ''This plot is already fertilized.'']
           (fertilizeCell ext s row col)"
    and "crop_id (crop c) \<noteq> ''empty'' \<Longrightarrow> \<not> fertilized c \<Longrightarrow>
         balance s < of_int (fertilizeCost s) \<Longrightarrow>
         rejected_with_alert s
           [S ''Cannot afford fertilizer. Cost: $'', N (of_int (fertilizeCost s))]
           (fertilizeCell ext s row col)"
  using assms by (simp_all add: fertilizeCell_def addEvent_rejects)

lemma harvestCell_rejects:
  assumes "grid_lookup (grid s) row col = Cell c"
  shows "crop_id (crop c) = ''empty'' \<Longrightarrow>
         rejected_with_alert s [S ''Nothing to harvest in this plot.'']
           (harvestCell ext s row col)"
    and "crop_id (crop c) \<noteq> ''empty'' \<Longrightarrow> \<not> harvestReady c \<Longrightarrow>
         rejected_with_alert s [S ''Crop is not ready for harvest yet.'']
           (harvestCell ext s row col)"
  using assms by (simp_all add: harvestCell_def addEvent_rejects)

lemma researchTechnology_silent:
  assumes "find (\<lambda>t. tech_id t = techId) (technologies s) = None
           \<or> (\<exists>tech. find (\<lambda>t. tech_id t = techId) (technologies s) = Some tech
                 \<and> researched tech)"
  shows "researchTechnology ext s techId = (Returned False, s)"
  using assms by (auto simp: researchTechnology_def)

lemma researchTechnology_rejects:
  assumes "find (\<lambda>t. tech_id t = techId) (technologies s) = Some tech"
    and "\<not> researched tech"
  shows "\<not> checkTechPrerequisites ext tech (researchedTechs s) \<Longrightarrow>
         rejected_with_alert s
           [S ''Cannot research '', S (tech_name tech), S '' - prerequisites not met.'']
           (researchTechnology ext s techId)"
    and "checkTechPrerequisites ext tech (researchedTechs s) \<Longrightarrow> balance s < cost tech \<Longrightarrow>
         rejected_with_alert s
           [S ''Cannot afford to research '', S (tech_name tech), S ''. Cost: $'', N (cost tech)]
           (researchTechnology ext s techId)"
  using assms by (simp_all add: researchTechnology_def addEvent_rejects)

text \<open>
  Claim C2, as the code has it. Every action on a cell first reads \<open>grid[row][col]\<close>:
  \<^item> for a row the grid does not have, \<open>plantCrop\<close>, \<open>irrigateCell\<close>, \<open>fertilizeCell\<close> and
    \<open>harvestCell\<close> raise a \<open>TypeError\<close> before any validation, whatever the crop id; for a
    column the row does not have, \<open>irrigateCell\<close>, \<open>fertilizeCell\<close> and \<open>harvestCell\<close> raise it
    at their first check. The state is as it was;
  \<^item> for a row that exists, \<open>plantCrop\<close> with a crop id that is unknown or the empty crop's
    returns \<open>false\<close> silently: the state, event log included, is returned as it was. So does
    \<open>researchTechnology\<close> with a technology that is unknown or already researched;
  \<^item> for a row that exists, \<open>plantCrop\<close> with a balance below the planting cost, and for a
    cell that exists, the other checks of \<open>irrigateCell\<close>, \<open>fertilizeCell\<close> and \<open>harvestCell\<close>,
    and the remaining checks of \<open>researchTechnology\<close>, return \<open>false\<close> and leave the state as
    it was but for one alert: an entry at the front of the event log whose message is that
    of the first check that fails, in the order of the code (the plot is empty; it is
    already irrigated or fertilized, or not ready for harvest; the balance is below the
    cost; for research, the prerequisites are not met, then the balance is below the
    cost), and the same message sent to the logger;
  \<^item> such an alert leaves the balance, the grid, the researched technologies and the
    technology list alone.
\<close>

theorem rejected_actions_leave_the_state:
  "(grid_lookup (grid s) row col = NoRow \<longrightarrow>
      plantCrop ext s row col cropId = (TypeError, s)
      \<and> irrigateCell ext s row col = (TypeError, s)
      \<and> fertilizeCell ext s row col = (TypeError, s)
      \<and> harvestCell ext s row col = (TypeError, s))
   \<and> (grid_lookup (grid s) row col = NoCell \<longrightarrow>
      irrigateCell ext s row col = (TypeError, s)
      \<and> fertilizeCell ext s row col = (TypeError, s)
      \<and> harvestCell ext s row col = (TypeError, s))
   \<and> (grid_lookup (grid s) row col \<noteq> NoRow \<longrightarrow>
      (getCropById ext cropId = None \<longrightarrow>
         plantCrop ext s row col cropId = (Returned False, s))
      \<and> (\<forall>c. getCropById ext cropId = Some c \<longrightarrow>
            (crop_id c = ''empty'' \<longrightarrow>
               plantCrop ext s row col cropId = (Returned False, s))
            \<and> (crop_id c \<noteq> ''empty'' \<and> balance s < of_int (plantingCost s c) \<longrightarrow>
                 rejected_with_alert s
                   [S ''Cannot afford to plant '', S (crop_name c), S ''. Cost: $'',
                    N (of_int (plantingCost s c))]
                   (plantCrop ext s row col cropId))))
   \<and> (\<forall>c. grid_lookup (grid s) row col = Cell c \<longrightarrow>
         (crop_id (crop c) = ''empty'' \<longrightarrow>
            rejected_with_alert s [S ''Cannot irrigate an empty plot.'']
              (irrigateCell ext s row col)
            \<and> rejected_with_alert s [S ''Cannot fertilize an empty plot.'']
                (fertilizeCell ext s row col)
            \<and> rejected_with_alert s [S ''Nothing to harvest in this plot.'']
                (harvestCell ext s row col))
         \<and> (crop_id (crop c) \<noteq> ''empty'' \<longrightarrow>
              (irrigated c \<longrightarrow>
                 rejected_with_alert s [S ''This plot is already irrigated.'']
                   (irrigateCell ext s row col))
              \<and> (\<not> irrigated c \<and> balance s < of_int (irrigationCost s) \<longrightarrow>
                   rejected_with_alert s
                     [S ''Cannot afford irrigation. Cost: $'', N (of_int (irrigationCost s))]
                     (irrigateCell ext s row col))
              \<and> (fertilized c \<longrightarrow>
                   rejected_with_alert s [S ''This plot is already fertilized.'']
                     (fertilizeCell ext s row col))
              \<and> (\<not> fertilized c \<and> balance s < of_int (fertilizeCost s) \<longrightarrow>
                   rejected_with_alert s
                     [S ''Cannot afford fertilizer. Cost: $'', N (of_int (fertilizeCost s))]
                     (fertilizeCell ext s row col))
              \<and> (\<not> harvestReady c \<longrightarrow>
                   rejected_with_alert s [S ''Crop is not ready for harvest yet.'']
                     (harvestCell ext s row col))))
   \<and> (find (\<lambda>t. tech_id t = techId) (technologies s) = None \<longrightarrow>
        researchTechnology ext s techId = (Returned False, s))
   \<and> (\<forall>tech. find (\<lambda>t. tech_id t = techId) (technologies s) = Some tech \<longrightarrow>
         (researched tech \<longrightarrow> researchTechnology ext s techId = (Returned False, s))
         \<and> (\<not> researched tech \<longrightarrow>
              (\<not> checkTechPrerequisites ext tech (researchedTechs s) \<longrightarrow>
                 rejected_with_alert s
                   [S ''Cannot research '', S (tech_name tech), S '' - prerequisites not met.'']
                   (researchTechnology ext s techId))
              \<and> (checkTechPrerequisites ext tech (researchedTechs s) \<and> balance s < cost tech \<longrightarrow>
                   rejected_with_alert s
                     [S ''Cannot afford to research '', S (tech_name tech), S ''. Cost: $'',
                      N (cost tech)]
                     (researchTechnology ext s techId))))
   \<and> same_simulation s (with_alert s m)"
proof -
  have rows: "grid_lookup (grid s) row col = NoRow \<longrightarrow>
      plantCrop ext s row col cropId = (TypeError, s)
      \<and> irrigateCell ext s row col = (TypeError, s)
      \<and> fertilizeCell ext s row col = (TypeError, s)
      \<and> harvestCell ext s row col = (TypeError, s)"
    by (simp add: missing_row)
  have cells: "grid_lookup (grid s) row col = NoCell \<longrightarrow>
      irrigateCell ext s row col = (TypeError, s)
      \<and> fertilizeCell ext s row col = (TypeError, s)
      \<and> harvestCell ext s row col = (TypeError, s)"
    by (simp add: missing_cell)
  have plant: "grid_lookup (grid s) row col \<noteq> NoRow \<longrightarrow>
      (getCropById ext cropId = None \<longrightarrow>
         plantCrop ext s row col cropId = (Returned False, s))
      \<and> (\<forall>c. getCropById ext cropId = Some c \<longrightarrow>
            (crop_id c = ''empty'' \<longrightarrow>
               plantCrop ext s row col cropId = (Returned False, s))
            \<and> (crop_id c \<noteq> ''empty'' \<and> balance s < of_int (plantingCost s c) \<longrightarrow>
                 rejected_with_alert s
                   [S ''Cannot afford to plant '', S (crop_name c), S ''. Cost: $'',
                    N (of_int (plantingCost s c))]
                   (plantCrop ext s row col cropId)))"
    using plantCrop_silent [of s row col ext cropId]
      plantCrop_cannot_afford [of s row col ext cropId]
    by blast
  have act: "\<forall>c. grid_lookup (grid s) row col = Cell c \<longrightarrow>
         (crop_id (crop c) = ''empty'' \<longrightarrow>
            rejected_with_alert s [S ''Cannot irrigate an empty plot.'']
              (irrigateCell ext s row col)
            \<and> rejected_with_alert s [S ''Cannot fertilize an empty plot.'']
                (fertilizeCell ext s row col)
            \<and> rejected_with_alert s [S ''Nothing to harvest in this plot.'']
                (harvestCell ext s row col))
         \<and> (crop_id (crop c) \<noteq> ''empty'' \<longrightarrow>
              (irrigated c \<longrightarrow>
                 rejected_with_alert s [S ''This plot is already irrigated.'']
                   (irrigateCell ext s row col))
              \<and> (\<not> irrigated c \<and> balance s < of_int (irrigationCost s) \<longrightarrow>
                   rejected_with_alert s
                     [S ''Cannot afford irrigation. Cost: $'', N (of_int (irrigationCost s))]
                     (irrigateCell ext s row col))
              \<and> (fertilized c \<longrightarrow>
                   rejected_with_alert s [S ''This plot is already fertilized.'']
                     (fertilizeCell ext s row col))
              \<and> (\<not> fertilized c \<and> balance s < of_int (fertilizeCost s) \<longrightarrow>
                   rejected_with_alert s
                     [S ''Cannot afford fertilizer. Cost: $'', N (of_int (fertilizeCost s))]
                     (fertilizeCell ext s row col))
              \<and> (\<not> harvestReady c \<longrightarrow>
                   rejected_with_alert s [S ''Crop is not ready for harvest yet.'']
                     (harvestCell ext s row col)))"
    using irrigateCell_rejects [of s row col _ ext] fertilizeCell_rejects [of s row col _ ext]
      harvestCell_rejects [of s row col _ ext]
    by blast
  have unknown: "find (\<lambda>t. tech_id t = techId) (technologies s) = None \<longrightarrow>
        researchTechnology ext s techId = (Returned False, s)"
    using researchTechnology_silent [of techId s ext] by blast
  have research: "\<forall>tech. find (\<lambda>t. tech_id t = techId) (technologies s) = Some tech \<longrightarrow>
         (researched tech \<longrightarrow> researchTechnology ext s techId = (Returned False, s))
         \<and> (\<not> researched tech \<longrightarrow>
              (\<not> checkTechPrerequisites ext tech (researchedTechs s) \<longrightarrow>
                 rejected_with_alert s
                   [S ''Cannot research '', S (tech_name tech), S '' - prerequisites not met.'']
                   (researchTechnology ext s techId))
              \<and> (checkTechPrerequisites ext tech (researchedTechs s) \<and> balance s < cost tech \<longrightarrow>
                   rejected_with_alert s
                     [S ''Cannot afford to research '', S (tech_name tech), S ''. Cost: $'',
                      N (cost tech)]
                     (researchTechnology ext s techId)))"
    using researchTechnology_silent [of techId s ext]
      researchTechnology_rejects [of techId s _ ext]
    by blast
  from rows cells plant act unknown research with_alert_same [of s m] show ?thesis
    by (intro conjI)
qed

lemma demo_lookups:
  "grid_lookup (grid demo_game) 0 0 = Cell demo_cell"
  "grid_lookup (grid planted_game) 0 0 = Cell (demo_cell\<lparr>crop := corn\<rparr>)"
  "grid_lookup (grid poor_game) 0 0 = Cell (demo_cell\<lparr>crop := corn\<rparr>)"
  "grid_lookup (grid demo_game) 10 0 = NoRow"
  "grid_lookup (grid demo_game) 0 10 = NoCell"
  by (simp_all add: grid_lookup_def demo_game_def planted_game_def poor_game_def)

lemma demo_crops:
  "getCropById demo_ext ''quinoa'' = None" "getCropById demo_ext ''corn'' = Some corn"
  by (simp_all add: demo_ext_def corn_def empty_crop_def)

lemma demo_techs:
  "find (\<lambda>t. tech_id t = ''warp_drive'') (technologies demo_game) = None"
  "find (\<lambda>t. tech_id t = ''drip_irrigation'') (technologies demo_game) = Some demo_tech"
  by (simp_all add: demo_game_def demo_tech_def)

text \<open>
  On the farm the constructor builds, whose plots are empty and whose balance is 20000;
  with corn planted on the first plot; and with corn planted and a balance of 100.
\<close>

theorem rejected_actions_leave_the_state_witness:
  "plantCrop demo_ext demo_game 0 0 ''quinoa'' = (Returned False, demo_game)
   \<and> rejected_with_alert poor_game
       [S ''Cannot afford to plant '', S ''Corn'', S ''. Cost: $'', N 400]
       (plantCrop demo_ext poor_game 0 0 ''corn'')
   \<and> rejected_with_alert demo_game [S ''Cannot irrigate an empty plot.'']
       (irrigateCell demo_ext demo_game 0 0)
   \<and> rejected_with_alert poor_game [S ''Cannot afford fertilizer. Cost: $'', N 300]
       (fertilizeCell demo_ext poor_game 0 0)
   \<and> rejected_with_alert planted_game [S ''Crop is not ready for harvest yet.'']
       (harvestCell demo_ext planted_game 0 0)
   \<and> researchTechnology demo_ext demo_game ''warp_drive'' = (Returned False, demo_game)
   \<and> rejected_with_alert demo_game
       [S ''Cannot afford to research '', S ''Drip Irrigation'', S ''. Cost: $'', N 25000]
       (researchTechnology demo_ext demo_game ''drip_irrigation'')
   \<and> plantCrop demo_ext demo_game 10 0 ''corn'' = (TypeError, demo_game)
   \<and> harvestCell demo_ext demo_game 0 10 = (TypeError, demo_game)
   \<and> events (snd (irrigateCell demo_ext demo_game 0 0))
       = [\<lparr>date = [S ''Spring'', S '', Year '', N 1],
           message = [S ''Cannot irrigate an empty plot.''], isAlert = True\<rparr>]
   \<and> calls (snd (irrigateCell demo_ext demo_game 0 0))
       = [UiUpdateEventsList, LoggerLog [S ''Cannot irrigate an empty plot.''] (Some 0)]
   \<and> same_simulation demo_game (snd (irrigateCell demo_ext demo_game 0 0))"
proof -
  note a = rejected_actions_leave_the_state
    [where ext = demo_ext and s = demo_game and row = 0 and col = 0 and cropId = "''quinoa''"
       and techId = "''warp_drive''" and m = "[S ''Cannot irrigate an empty plot.'']"]
  note b = rejected_actions_leave_the_state
    [where ext = demo_ext and s = poor_game and row = 0 and col = 0 and cropId = "''corn''"]
  note c = rejected_actions_leave_the_state
    [where ext = demo_ext and s = planted_game and row = 0 and col = 0]
  note d = rejected_actions_leave_the_state
    [where ext = demo_ext and s = demo_game and techId = "''drip_irrigation''"]
  note e = rejected_actions_leave_the_state
    [where ext = demo_ext and s = demo_game and row = 10 and col = 0 and cropId = "''corn''"]
  note f = rejected_actions_leave_the_state
    [where ext = demo_ext and s = demo_game and row = 0 and col = 10]
  have row: "grid_lookup (grid demo_game) 0 0 \<noteq> NoRow" "grid_lookup (grid poor_game) 0 0 \<noteq> NoRow"
    by (simp_all add: demo_lookups)
  have empty: "crop_id (crop demo_cell) = ''empty''"
    by (simp add: demo_cell_def empty_crop_def)
  have planted: "crop_id (crop (demo_cell\<lparr>crop := corn\<rparr>)) \<noteq> ''empty''"
    "\<not> harvestReady (demo_cell\<lparr>crop := corn\<rparr>)" "\<not> fertilized (demo_cell\<lparr>crop := corn\<rparr>)"
    by (simp_all add: demo_cell_def corn_def)
  have costs: "plantingCost poor_game corn = 400" "fertilizeCost poor_game = 300"
    by (simp_all add: corn_def poor_game_def planted_game_def demo_game_def plantingCost_def
          fertilizeCost_def inflationMultiplier_def Math_pow_def Math_round_def floor_eq_iff)
  have poor: "crop_id corn \<noteq> ''empty''" "crop_name corn = ''Corn''"
    "balance poor_game < of_int (plantingCost poor_game corn)"
    "balance poor_game < of_int (fertilizeCost poor_game)"
    unfolding costs by (simp_all add: corn_def poor_game_def)
  have dear: "\<not> researched demo_tech" "balance demo_game < cost demo_tech"
    "checkTechPrerequisites demo_ext demo_tech (researchedTechs demo_game)"
    "tech_name demo_tech = ''Drip Irrigation''" "cost demo_tech = 25000"
    by (simp_all add: demo_tech_def demo_game_def demo_ext_def)
  have 1: "plantCrop demo_ext demo_game 0 0 ''quinoa'' = (Returned False, demo_game)"
    using a row(1) demo_crops(1) by blast
  have "rejected_with_alert poor_game
       [S ''Cannot afford to plant '', S (crop_name corn), S ''. Cost: $'',
        N (of_int (plantingCost poor_game corn))]
       (plantCrop demo_ext poor_game 0 0 ''corn'')"
    using b row(2) demo_crops(2) poor(1,3) by blast
  then have 2: "rejected_with_alert poor_game
       [S ''Cannot afford to plant '', S ''Corn'', S ''. Cost: $'', N 400]
       (plantCrop demo_ext poor_game 0 0 ''corn'')"
    unfolding costs poor(2) by simp
  have 3: "rejected_with_alert demo_game [S ''Cannot irrigate an empty plot.'']
       (irrigateCell demo_ext demo_game 0 0)"
    using a demo_lookups(1) empty by blast
  have "rejected_with_alert poor_game
       [S ''Cannot afford fertilizer. Cost: $'', N (of_int (fertilizeCost poor_game))]
       (fertilizeCell demo_ext poor_game 0 0)"
    using b demo_lookups(3) planted(1,3) poor(4) by blast
  then have 4: "rejected_with_alert poor_game [S ''Cannot afford fertilizer. Cost: $'', N 300]
       (fertilizeCell demo_ext poor_game 0 0)"
    unfolding costs by simp
  have 5: "rejected_with_alert planted_game [S ''Crop is not ready for harvest yet.'']
       (harvestCell demo_ext planted_game 0 0)"
    using c demo_lookups(2) planted(1,2) by blast
  have 6: "researchTechnology demo_ext demo_game ''warp_drive'' = (Returned False, demo_game)"
    using a demo_techs(1) by blast
  have "rejected_with_alert demo_game
       [S ''Cannot afford to research '', S (tech_name demo_tech), S ''. Cost: $'',
        N (cost demo_tech)]
       (researchTechnology demo_ext demo_game ''drip_irrigation'')"
    using d demo_techs(2) dear(1,2,3) by blast
  then have 7: "rejected_with_alert demo_game
       [S ''Cannot afford to research '', S ''Drip Irrigation'', S ''. Cost: $'', N 25000]
       (researchTechnology demo_ext demo_game ''drip_irrigation'')"
    unfolding dear(4,5) .
  have 8: "plantCrop demo_ext demo_game 10 0 ''corn'' = (TypeError, demo_game)"
    using e demo_lookups(4) by blast
  have 9: "harvestCell demo_ext demo_game 0 10 = (TypeError, demo_game)"
    using f demo_lookups(5) by blast
  have after: "snd (irrigateCell demo_ext demo_game 0 0)
       = with_alert demo_game [S ''Cannot irrigate an empty plot.'']"
    using 3 by (simp add: rejected_with_alert_def)
  have 10: "events (snd (irrigateCell demo_ext demo_game 0 0))
       = [\<lparr>date = [S ''Spring'', S '', Year '', N 1],
           message = [S ''Cannot irrigate an empty plot.''], isAlert = True\<rparr>]"
    "calls (snd (irrigateCell demo_ext demo_game 0 0))
       = [UiUpdateEventsList, LoggerLog [S ''Cannot irrigate an empty plot.''] (Some 0)]"
    unfolding after by (simp_all add: with_alert_def demo_game_def)
  have 11: "same_simulation demo_game (snd (irrigateCell demo_ext demo_game 0 0))"
    unfolding after using a by blast
  from 1 2 3 4 5 6 7 8 9 10 11 show ?thesis by blast
qed

text \<open>
  The claim as first worded has every rejection return \<open>false\<close> and log an alert. Planting
  a crop the table does not know returns \<open>false\<close> and leaves the empty event log empty; in
  a row the grid does not have it does not return: it raises a \<open>TypeError\<close>.
\<close>

theorem plantCrop_unknown_crop_is_silent_or_raises:
  "plantCrop demo_ext demo_game 0 0 ''quinoa'' = (Returned False, demo_game)
   \<and> events demo_game = []
   \<and> plantCrop demo_ext demo_game 10 0 ''quinoa'' = (TypeError, demo_game)"
  by (simp add: plantCrop_silent missing_row demo_lookups demo_crops) (simp add: demo_game_def)

section \<open>The order of a tick\<close>

text \<open>Every step of a tick only appends to the record of the calls to the user interface
  and the logger.\<close>

lemma emit_calls: "calls (emit s c) = calls s @ [c]"
  by (simp add: emit_def)

lemma addEvent_calls:
  "calls (addEvent s m a) =
   calls s @ [UiUpdateEventsList, LoggerLog m (Some (if a then 0 else 1))]"
  by (simp add: addEvent_def Let_def)

lemma random_calls [simp]: "calls (snd (random ext s)) = calls s"
  by (simp add: random_def case_prod_beta)

lemma emit_logs [simp]: "prefix xs (calls s) \<Longrightarrow> prefix xs (calls (emit s c))"
  by (simp add: emit_calls prefix_prefix)

lemma addEvent_logs [simp]: "prefix xs (calls s) \<Longrightarrow> prefix xs (calls (addEvent s m a))"
  by (simp add: addEvent_calls prefix_prefix)

lemma payDailyOverhead_logs [simp]:
  "prefix xs (calls s) \<Longrightarrow> prefix xs (calls (payDailyOverhead s))"
  by (simp add: payDailyOverhead_def Let_def)

lemma announce_ready_logs [simp]:
  "prefix xs (calls s) \<Longrightarrow> prefix xs (calls (announce_ready s rc))"
  by (simp add: announce_ready_def split: prod.splits)

lemma announce_all_logs [simp]:
  "prefix xs (calls s) \<Longrightarrow> prefix xs (calls (foldl announce_ready s rcs))"
  by (induction rcs arbitrary: s) simp_all

lemma updateFarm_logs [simp]:
  "prefix xs (calls s) \<Longrightarrow> prefix xs (calls (updateFarm ext s))"
  by (simp add: updateFarm_def Let_def case_prod_beta)

lemma fluctuate_crop_calls [simp]: "calls (fluctuate_crop ext s c) = calls s"
  by (simp add: fluctuate_crop_def Let_def case_prod_beta split: option.splits)

lemma fluctuateMarketPrices_calls [simp]: "calls (fluctuateMarketPrices ext s) = calls s"
  by (simp add: fluctuateMarketPrices_def foldl_keeps)

lemma seed_event_calls [simp]: "calls (seed_event ext s p f) = calls s"
  by (simp add: seed_event_def Let_def case_prod_beta)

lemma water_recovery_calls [simp]: "calls (snd (water_recovery ext s b w)) = calls s"
  by (simp add: water_recovery_def Let_def case_prod_beta)

lemma seasonal_events_logs [simp]:
  "prefix xs (calls s) \<Longrightarrow> prefix xs (calls (seasonal_events ext s))"
  by (cases "season s") (simp_all add: seasonal_events_def Let_def case_prod_beta)

lemma advanceSeason_logs [simp]:
  "prefix xs (calls s) \<Longrightarrow> prefix xs (calls (advanceSeason ext s))"
  by (simp add: advanceSeason_def Let_def)

lemma applyAnnualInflation_calls [simp]: "calls (applyAnnualInflation s) = calls s"
  by (simp add: applyAnnualInflation_def)

lemma distributeSubsidy_logs [simp]:
  "prefix xs (calls s) \<Longrightarrow> prefix xs (calls (distributeSubsidy ext s sc))"
  by (simp add: distributeSubsidy_def Let_def case_prod_beta)

lemma decade_milestone_logs [simp]:
  "prefix xs (calls s) \<Longrightarrow> prefix xs (calls (decade_milestone ext s))"
  by (simp add: decade_milestone_def Let_def case_prod_beta)

lemma advanceYear_logs [simp]:
  "prefix xs (calls s) \<Longrightarrow> prefix xs (calls (advanceYear ext s))"
  by (simp add: advanceYear_def Let_def case_prod_beta)

lemma handle_weather_logs [simp]:
  "prefix xs (calls s) \<Longrightarrow> prefix xs (calls (handle_weather s k m r v))"
  by (simp add: handle_weather_def Let_def)

lemma handle_event_logs [simp]:
  "prefix xs (calls s) \<Longrightarrow> prefix xs (calls (handle_event ext s e))"
  by (simp add: handle_event_def Let_def case_prod_beta)

lemma handle_events_log [simp]:
  "prefix xs (calls s) \<Longrightarrow> prefix xs (calls (foldl (handle_event ext) s es))"
  by (induction es arbitrary: s) simp_all

lemma processPendingEvents_logs [simp]:
  "prefix xs (calls s) \<Longrightarrow> prefix xs (calls (processPendingEvents ext s))"
  by (simp add: processPendingEvents_def Let_def)

lemma check_season_logs [simp]:
  "prefix xs (calls s) \<Longrightarrow> prefix xs (calls (check_season ext s))"
  by (simp add: check_season_def)

lemma check_year_logs [simp]:
  "prefix xs (calls s) \<Longrightarrow> prefix xs (calls (check_year ext s))"
  by (simp add: check_year_def)

lemma random_event_logs [simp]:
  "prefix xs (calls s) \<Longrightarrow> prefix xs (calls (random_event ext s))"
  by (simp add: random_event_def Let_def case_prod_beta split: option.splits)





lemma random_event_farmHealth [simp]: "farmHealth (random_event ext s) = farmHealth s"
  by (simp add: random_event_def Let_def case_prod_beta random_def addEvent_def
        split: option.splits)














end
